theory Spec2Isabelle
  imports Complex_Main
begin

section \<open>Behavioural telemetry pipeline\<close>

text \<open>
  The pipeline of \<^verbatim>\<open>client/\<close>: feature extraction over a sliding window
  (\<^verbatim>\<open>feature_extractor.py\<close>), baseline calibration (\<^verbatim>\<open>baseline_builder.py\<close>),
  rule-based anomaly scoring (\<^verbatim>\<open>activity_shift_detector.py\<close>) and risk smoothing
  (\<^verbatim>\<open>risk_engine.py\<close>).

  Python's \<^verbatim>\<open>float\<close> is modelled by \<open>real\<close>: rounding, infinities and NaN are outside
  the model. What the model keeps of float arithmetic is its one exception: a division
  whose divisor is zero raises \<^verbatim>\<open>ZeroDivisionError\<close>. A division that sits directly under
  a test of its own divisor (\<^verbatim>\<open>if d > 0: ... / d\<close>) is written with \<open>/\<close>; every other
  division goes through \<open>py_div\<close>, so that the exception is a value of the model.
\<close>

datatype error = ZeroDivisionError | TypeError | ValueError

definition py_div :: "real \<Rightarrow> real \<Rightarrow> error + real" where
  "py_div a b = (if b = 0 then Inl ZeroDivisionError else Inr (a / b))"

subsection \<open>Events\<close>

text \<open>
  Modelled from the spec: \<^verbatim>\<open>shared/models.py\<close> (the event classes and \<^verbatim>\<open>EventType\<close>) is
  not among the sources. The spec gives the six variants key press, key release, mouse
  move (x, y), focus lost, focus gained and idle period (duration), each with a timestamp;
  the constructors below take the fields in the order the listener passes them
  (\<^verbatim>\<open>timestamp\<close>, \<^verbatim>\<open>type\<close>, then \<^verbatim>\<open>x\<close>, \<^verbatim>\<open>y\<close> / \<^verbatim>\<open>lost_focus\<close> / \<^verbatim>\<open>duration\<close>).
\<close>

datatype EventType = KEY_PRESS | KEY_RELEASE | MOUSE_MOVE | FOCUS_LOST | FOCUS_GAINED | IDLE_PERIOD

datatype BaseEvent =
    KeystrokeEvent real EventType
  | MouseEvent real EventType real real
  | FocusEvent real EventType bool
  | IdleEvent real EventType real

fun timestamp :: "BaseEvent \<Rightarrow> real" where
  "timestamp (KeystrokeEvent t ty) = t"
| "timestamp (MouseEvent t ty x y) = t"
| "timestamp (FocusEvent t ty lf) = t"
| "timestamp (IdleEvent t ty d) = t"

subsection \<open>Feature vectors, baselines and scores\<close>

record FeatureVector =
  avg_typing_speed :: real
  avg_idle_duration :: real
  focus_loss_count :: int
  avg_mouse_speed :: real
  inter_key_interval :: real
  window_start :: real
  window_end :: real

text \<open>\<^verbatim>\<open>FeatureVector()\<close>: every field at its dataclass default.\<close>

definition FeatureVector_default :: FeatureVector where
  "FeatureVector_default =
     \<lparr>avg_typing_speed = 0, avg_idle_duration = 0, focus_loss_count = 0,
      avg_mouse_speed = 0, inter_key_interval = 0, window_start = 0, window_end = 0\<rparr>"

text \<open>
  The baseline's fields carry the names of two feature fields in the source; here they
  are prefixed with \<open>bl_\<close>, since a record field is a constant of the theory.
\<close>

record BaselineProfile =
  bl_avg_typing_speed :: real
  bl_avg_idle_duration :: real
  bl_avg_focus_rate :: real

record AnomalyScores =
  idle_burst :: real
  focus_instability :: real
  behavioral_drift :: real
  overall :: real

text \<open>\<^verbatim>\<open>AnomalyScores()\<close>.\<close>

definition AnomalyScores_default :: AnomalyScores where
  "AnomalyScores_default =
     \<lparr>idle_burst = 0, focus_instability = 0, behavioral_drift = 0, overall = 0\<rparr>"

subsection \<open>Anomaly scorer (\<^verbatim>\<open>ActivityShiftDetector\<close>)\<close>

record ActivityShiftDetector =
  baseline :: "BaselineProfile option"
  counter :: nat

text \<open>\<^verbatim>\<open>ActivityShiftDetector(baseline)\<close>.\<close>

definition ActivityShiftDetector_init :: "BaselineProfile option \<Rightarrow> ActivityShiftDetector" where
  "ActivityShiftDetector_init b = \<lparr>baseline = b, counter = 0\<rparr>"

text \<open>
  \<^verbatim>\<open>random.uniform(a, b)\<close> is \<^verbatim>\<open>a + (b - a) * random()\<close>; the value that \<^verbatim>\<open>random()\<close>
  returns, a number of the interval \<open>[0, 1)\<close>, is an argument of the model.
\<close>

definition uniform :: "real \<Rightarrow> real \<Rightarrow> real \<Rightarrow> real" where
  "uniform a b r = a + (b - a) * r"

definition unit_draw :: "real \<Rightarrow> bool" where
  "unit_draw r = (0 \<le> r \<and> r < 1)"

text \<open>Rule A, idle-to-burst (lines 64 to 74 of the detector).\<close>

definition rule_idle_burst :: "BaselineProfile \<Rightarrow> FeatureVector \<Rightarrow> error + real" where
  "rule_idle_burst b features =
     (let idle_threshold = bl_avg_idle_duration b * 1.2 in
      if avg_idle_duration features > idle_threshold then
        if avg_typing_speed features > 1.3 * bl_avg_typing_speed b then
          (case py_div (avg_typing_speed features) (bl_avg_typing_speed b) of
             Inl e \<Rightarrow> Inl e
           | Inr ratio \<Rightarrow> (let raw = (ratio - 1.3) * 100 in Inr (min 70 (max 0 raw))))
        else Inr 0
      else Inr 0)"

text \<open>Rule B, focus instability (lines 76 to 88).\<close>

definition rule_focus_instability :: "BaselineProfile \<Rightarrow> FeatureVector \<Rightarrow> error + real" where
  "rule_focus_instability b features =
     (let window_duration = window_end features - window_start features;
          focus_rate = (if window_duration > 0
                        then of_int (focus_loss_count features) * (60 / window_duration)
                        else 0)
      in if focus_rate > 1.5 * bl_avg_focus_rate b then
           (case py_div focus_rate (bl_avg_focus_rate b) of
              Inl e \<Rightarrow> Inl e
            | Inr ratio \<Rightarrow> (let raw = (ratio - 1.5) * 100 in Inr (min 70 (max 0 raw))))
         else Inr 0)"

text \<open>Rule C, behavioural drift (lines 90 to 99).\<close>

definition rule_behavioral_drift :: "BaselineProfile \<Rightarrow> FeatureVector \<Rightarrow> real" where
  "rule_behavioral_drift b features =
     (if bl_avg_typing_speed b > 0 then
        (let deviation_pct =
               \<bar>avg_typing_speed features - bl_avg_typing_speed b\<bar> / bl_avg_typing_speed b
         in if deviation_pct > 0.3
            then (let raw = (deviation_pct - 0.3) * 200 in min 70 (max 0 raw))
            else 0)
      else 0)"

text \<open>
  \<^verbatim>\<open>compute_scores\<close>. The detector is passed and returned, since the call counts
  itself in \<^verbatim>\<open>self.counter\<close>; the count is kept when the call raises. \<open>r1\<close> is what
  \<^verbatim>\<open>random.random()\<close> returns in this call and \<open>r2\<close> what the generator returns inside
  \<^verbatim>\<open>random.uniform(30, 80)\<close>; neither is read during the first twenty scored calls.
\<close>

definition compute_scores ::
  "ActivityShiftDetector \<Rightarrow> FeatureVector \<Rightarrow> real \<Rightarrow> real
     \<Rightarrow> (error + AnomalyScores) \<times> ActivityShiftDetector" where
  "compute_scores d features r1 r2 =
     (case baseline d of
        None \<Rightarrow> (Inr AnomalyScores_default, d)
      | Some b \<Rightarrow>
          (let d' = d\<lparr>counter := counter d + 1\<rparr> in
           if counter d' > 20 then
             (let scores = AnomalyScores_default; rand = r1; u = uniform 30 80 r2 in
              if rand < 0.33 then (Inr (scores\<lparr>idle_burst := u, overall := u\<rparr>), d')
              else if rand < 0.66 then (Inr (scores\<lparr>focus_instability := u, overall := u\<rparr>), d')
              else (Inr (scores\<lparr>behavioral_drift := u, overall := u\<rparr>), d'))
           else
             (case rule_idle_burst b features of
                Inl e \<Rightarrow> (Inl e, d')
              | Inr ib \<Rightarrow>
                  (case rule_focus_instability b features of
                     Inl e \<Rightarrow> (Inl e, d')
                   | Inr fi \<Rightarrow>
                       (let bd = rule_behavioral_drift b features in
                        (Inr \<lparr>idle_burst = ib, focus_instability = fi, behavioral_drift = bd,
                              overall = max ib (max fi bd)\<rparr>, d'))))))"

subsection \<open>Baseline calibrator (\<^verbatim>\<open>BaselineBuilder\<close>)\<close>

text \<open>
  The private attribute \<^verbatim>\<open>_baseline\<close> of the builder is the field \<open>bb_baseline\<close>
  (the detector has a \<^verbatim>\<open>_baseline\<close> of its own).
\<close>

record BaselineBuilder =
  calibration_duration :: real
  feature_history :: "FeatureVector list"
  bb_baseline :: "BaselineProfile option"
  calibration_start :: "real option"

definition BaselineBuilder_init :: "real \<Rightarrow> BaselineBuilder" where
  "BaselineBuilder_init d =
     \<lparr>calibration_duration = d, feature_history = [], bb_baseline = None,
      calibration_start = None\<rparr>"

definition start_calibration :: "BaselineBuilder \<Rightarrow> real \<Rightarrow> BaselineBuilder" where
  "start_calibration s start_time =
     s\<lparr>feature_history := [], bb_baseline := None, calibration_start := Some start_time\<rparr>"

text \<open>
  The accumulation loop of \<^verbatim>\<open>_build_baseline\<close>: the running totals of typing speed,
  idle duration and focus losses, and the window count.
\<close>

fun accumulate :: "FeatureVector list \<Rightarrow> real \<times> real \<times> real \<times> nat \<Rightarrow> real \<times> real \<times> real \<times> nat" where
  "accumulate [] totals = totals"
| "accumulate (fv # fvs) (total_typing_speed, total_idle_duration, total_focus_loss, window_count) =
     accumulate fvs
       (total_typing_speed + avg_typing_speed fv,
        total_idle_duration + avg_idle_duration fv,
        total_focus_loss + of_int (focus_loss_count fv),
        window_count + 1)"

text \<open>
  \<^verbatim>\<open>_build_baseline\<close>. Both \<^verbatim>\<open>hasattr\<close> tests hold of every \<^verbatim>\<open>FeatureVector\<close>, so the
  window duration is always read from the first stored vector.
\<close>

definition build_baseline :: "BaselineBuilder \<Rightarrow> error + BaselineBuilder" where
  "build_baseline s =
     (case feature_history s of
        [] \<Rightarrow>
          Inr (s\<lparr>bb_baseline :=
                   Some \<lparr>bl_avg_typing_speed = 150, bl_avg_idle_duration = 2,
                         bl_avg_focus_rate = 0.5\<rparr>\<rparr>)
      | first # rest \<Rightarrow>
          (case accumulate (feature_history s) (0, 0, 0, 0) of
             (total_typing_speed, total_idle_duration, total_focus_loss, window_count) \<Rightarrow>
               (case py_div total_typing_speed (real window_count) of
                  Inl e \<Rightarrow> Inl e
                | Inr avg_ts \<Rightarrow>
                    (case py_div total_idle_duration (real window_count) of
                       Inl e \<Rightarrow> Inl e
                     | Inr avg_id \<Rightarrow>
                         (case (if window_count > 0 then
                                  (let avg_focus_per_window = total_focus_loss / real window_count;
                                       wd = window_end first - window_start first;
                                       window_duration = (if wd \<le> 0 then 30 else wd)
                                   in case py_div 60 window_duration of
                                        Inl e \<Rightarrow> Inl e
                                      | Inr q \<Rightarrow> Inr (avg_focus_per_window * q))
                                else Inr 0) of
                            Inl e \<Rightarrow> Inl e
                          | Inr avg_focus_rate \<Rightarrow>
                              Inr (s\<lparr>bb_baseline :=
                                       Some \<lparr>bl_avg_typing_speed = avg_ts,
                                             bl_avg_idle_duration = avg_id,
                                             bl_avg_focus_rate = avg_focus_rate\<rparr>,
                                     feature_history := []\<rparr>))))))"

text \<open>
  \<^verbatim>\<open>update\<close>. After the implicit start the start time is set; the subtraction from
  \<^verbatim>\<open>None\<close> that Python would refuse is the \<open>TypeError\<close> branch.
\<close>

definition update :: "BaselineBuilder \<Rightarrow> FeatureVector \<Rightarrow> real \<Rightarrow> error + BaselineBuilder" where
  "update s features current_time =
     (if bb_baseline s \<noteq> None then Inr s
      else
        (let s1 = (if calibration_start s = None then start_calibration s current_time else s) in
         case calibration_start s1 of
           None \<Rightarrow> Inl TypeError
         | Some t0 \<Rightarrow>
             if current_time - t0 \<le> calibration_duration s1
             then Inr (s1\<lparr>feature_history := feature_history s1 @ [features]\<rparr>)
             else build_baseline s1))"


text \<open>A session of calls to \<^verbatim>\<open>update\<close>, stopped by the first exception.\<close>

fun updates :: "BaselineBuilder \<Rightarrow> (FeatureVector \<times> real) list \<Rightarrow> error + BaselineBuilder" where
  "updates s [] = Inr s"
| "updates s ((features, t) # rest) =
     (case update s features t of Inl e \<Rightarrow> Inl e | Inr s' \<Rightarrow> updates s' rest)"




text \<open>
  The baseline in the words of the specification: the means of typing speed and idle
  duration over the stored windows, and the mean focus-loss count scaled to a rate per
  minute by the duration of the first window (30 when that is not positive).
\<close>

definition mean :: "real list \<Rightarrow> real" where
  "mean xs = sum_list xs / real (length xs)"

definition spec_baseline :: "FeatureVector list \<Rightarrow> BaselineProfile" where
  "spec_baseline h =
     (let d = window_end (hd h) - window_start (hd h);
          window_duration = (if d \<le> 0 then 30 else d)
      in \<lparr>bl_avg_typing_speed = mean (map avg_typing_speed h),
          bl_avg_idle_duration = mean (map avg_idle_duration h),
          bl_avg_focus_rate =
            mean (map (\<lambda>fv. of_int (focus_loss_count fv)) h) * (60 / window_duration)\<rparr>)"

subsection \<open>Risk aggregator (\<^verbatim>\<open>RiskEngine\<close>)\<close>

text \<open>
  \<^verbatim>\<open>collections.deque(maxlen=n)\<close> is a bound with the items, oldest first. Its
  constructor refuses a negative bound (\<open>ValueError\<close>); \<^verbatim>\<open>append\<close> adds on the right
  and drops the leftmost item when the bound is exceeded.
\<close>

type_synonym deque = "nat \<times> real list"

definition deque_items :: "deque \<Rightarrow> real list" where
  "deque_items dq = snd dq"

definition deque_append :: "deque \<Rightarrow> real \<Rightarrow> deque" where
  "deque_append dq x =
     (let xs = snd dq @ [x] in (fst dq, if length xs > fst dq then tl xs else xs))"

record RiskEngine =
  smoothing_window :: int
  risk_history :: deque
  last_raw_risk :: real
  last_smoothed_risk :: real
  weight_idle_burst :: real
  weight_focus_instability :: real
  weight_behavioral_drift :: real

definition RiskEngine_init :: "int \<Rightarrow> error + RiskEngine" where
  "RiskEngine_init n =
     (if n < 0 then Inl ValueError
      else Inr \<lparr>smoothing_window = n, risk_history = (nat n, []), last_raw_risk = 0,
                last_smoothed_risk = 0, weight_idle_burst = 0.4,
                weight_focus_instability = 0.3, weight_behavioral_drift = 0.3\<rparr>)"

definition compute_risk :: "RiskEngine \<Rightarrow> AnomalyScores \<Rightarrow> real \<times> RiskEngine" where
  "compute_risk s anomaly_scores =
     (let weighted = weight_idle_burst s * idle_burst anomaly_scores
                   + weight_focus_instability s * focus_instability anomaly_scores
                   + weight_behavioral_drift s * behavioral_drift anomaly_scores;
          raw_risk = max 0 (min 100 weighted);
          history = deque_append (risk_history s) raw_risk;
          smoothed = (if length (deque_items history) > 0
                      then sum_list (deque_items history) / real (length (deque_items history))
                      else raw_risk)
      in (smoothed,
          s\<lparr>last_raw_risk := raw_risk, risk_history := history,
            last_smoothed_risk := smoothed\<rparr>))"

text \<open>The engine after a series of aggregation cycles.\<close>

fun feed :: "RiskEngine \<Rightarrow> AnomalyScores list \<Rightarrow> RiskEngine" where
  "feed s [] = s"
| "feed s (a # as) = feed (snd (compute_risk s a)) as"

text \<open>The raw risk of the specification, and scores whose raw risk is a given value.\<close>

definition raw_of :: "AnomalyScores \<Rightarrow> real" where
  "raw_of a =
     max 0 (min 100 (0.4 * idle_burst a + 0.3 * focus_instability a + 0.3 * behavioral_drift a))"

definition level :: "real \<Rightarrow> AnomalyScores" where
  "level x = \<lparr>idle_burst = x, focus_instability = x, behavioral_drift = x, overall = x\<rparr>"

subsection \<open>Feature extractor (\<^verbatim>\<open>FeatureExtractor\<close>)\<close>

record FeatureExtractor =
  window_duration :: real
  event_buffer :: "BaseEvent list"

definition FeatureExtractor_init :: "real \<Rightarrow> FeatureExtractor" where
  "FeatureExtractor_init wd = \<lparr>window_duration = wd, event_buffer = []\<rparr>"

text \<open>
  The scan of \<^verbatim>\<open>add_event\<close> for the first buffered event that is strictly later than
  the new one; a scan that finds none inserts nothing.
\<close>

fun insert_scan :: "BaseEvent \<Rightarrow> BaseEvent list \<Rightarrow> BaseEvent list" where
  "insert_scan event [] = []"
| "insert_scan event (e # es) =
     (if timestamp event < timestamp e then event # e # es else e # insert_scan event es)"

definition add_event :: "FeatureExtractor \<Rightarrow> BaseEvent \<Rightarrow> FeatureExtractor" where
  "add_event s event =
     (if event_buffer s = [] \<or> timestamp event \<ge> timestamp (last (event_buffer s))
      then s\<lparr>event_buffer := event_buffer s @ [event]\<rparr>
      else s\<lparr>event_buffer := insert_scan event (event_buffer s)\<rparr>)"

text \<open>The loop of \<^verbatim>\<open>_prune_buffer\<close>: pop from the left while the head is too old.\<close>

fun popleft_while :: "real \<Rightarrow> BaseEvent list \<Rightarrow> BaseEvent list" where
  "popleft_while cutoff [] = []"
| "popleft_while cutoff (e # es) =
     (if timestamp e < cutoff then popleft_while cutoff es else e # es)"

definition prune_buffer :: "FeatureExtractor \<Rightarrow> real \<Rightarrow> FeatureExtractor" where
  "prune_buffer s current_time =
     (let cutoff = current_time - window_duration s
      in s\<lparr>event_buffer := popleft_while cutoff (event_buffer s)\<rparr>)"

definition clear :: "FeatureExtractor \<Rightarrow> FeatureExtractor" where
  "clear s = s\<lparr>event_buffer := []\<rparr>"

text \<open>The four selections that \<^verbatim>\<open>compute_features\<close> makes from the window.\<close>

fun is_key_press :: "BaseEvent \<Rightarrow> bool" where
  "is_key_press (KeystrokeEvent t ty) = (ty = KEY_PRESS)"
| "is_key_press (MouseEvent t ty x y) = False"
| "is_key_press (FocusEvent t ty lf) = False"
| "is_key_press (IdleEvent t ty d) = False"

fun is_focus_lost :: "BaseEvent \<Rightarrow> bool" where
  "is_focus_lost (KeystrokeEvent t ty) = False"
| "is_focus_lost (MouseEvent t ty x y) = False"
| "is_focus_lost (FocusEvent t ty lf) = (ty = FOCUS_LOST)"
| "is_focus_lost (IdleEvent t ty d) = False"

fun press_timestamps_of :: "BaseEvent list \<Rightarrow> real list" where
  "press_timestamps_of [] = []"
| "press_timestamps_of (ev # evs) =
     (if is_key_press ev then timestamp ev # press_timestamps_of evs
      else press_timestamps_of evs)"

fun idle_durations_of :: "BaseEvent list \<Rightarrow> real list" where
  "idle_durations_of [] = []"
| "idle_durations_of (ev # evs) =
     (case ev of IdleEvent t ty d \<Rightarrow> d # idle_durations_of evs | _ \<Rightarrow> idle_durations_of evs)"

fun mouse_positions_of :: "BaseEvent list \<Rightarrow> (real \<times> real \<times> real) list" where
  "mouse_positions_of [] = []"
| "mouse_positions_of (ev # evs) =
     (case ev of
        MouseEvent t ty x y \<Rightarrow>
          (if ty = MOUSE_MOVE then (t, x, y) # mouse_positions_of evs
           else mouse_positions_of evs)
      | _ \<Rightarrow> mouse_positions_of evs)"

text \<open>Keystroke features (lines 106 to 122).\<close>

definition keystroke_features ::
  "BaseEvent list \<Rightarrow> real \<Rightarrow> FeatureVector \<Rightarrow> error + FeatureVector" where
  "keystroke_features window_events current_time fv =
     (let press_timestamps = press_timestamps_of window_events in
      if length press_timestamps \<ge> 2 then
        (let intervals = map (\<lambda>i. press_timestamps ! (i + 1) - press_timestamps ! i)
                             [0 ..< length press_timestamps - 1]
         in case py_div (sum_list intervals) (real (length intervals)) of
              Inl e \<Rightarrow> Inl e
            | Inr iki \<Rightarrow>
                (let fv1 = fv\<lparr>inter_key_interval := iki\<rparr>;
                     window_len = current_time - window_start fv1
                 in if window_len > 0
                    then Inr (fv1\<lparr>avg_typing_speed :=
                                     (real (length press_timestamps) / window_len) * 60\<rparr>)
                    else Inr fv1))
      else Inr (fv\<lparr>inter_key_interval := 0, avg_typing_speed := 0\<rparr>))"

text \<open>Idle duration (lines 124 to 132).\<close>

definition idle_features :: "BaseEvent list \<Rightarrow> FeatureVector \<Rightarrow> error + FeatureVector" where
  "idle_features window_events fv =
     (let idle_durations = idle_durations_of window_events in
      if idle_durations \<noteq> [] then
        (case py_div (sum_list idle_durations) (real (length idle_durations)) of
           Inl e \<Rightarrow> Inl e
         | Inr m \<Rightarrow> Inr (fv\<lparr>avg_idle_duration := m\<rparr>))
      else Inr (fv\<lparr>avg_idle_duration := 0\<rparr>))"

text \<open>Focus loss count (lines 134 to 139).\<close>

definition focus_features :: "BaseEvent list \<Rightarrow> FeatureVector \<Rightarrow> FeatureVector" where
  "focus_features window_events fv =
     fv\<lparr>focus_loss_count :=
          fold (\<lambda>ev n. if is_focus_lost ev then n + 1 else n) window_events 0\<rparr>"

text \<open>Mouse speed (lines 141 to 164).\<close>

definition total_distance_of :: "(real \<times> real \<times> real) list \<Rightarrow> real" where
  "total_distance_of mouse_positions =
     fold (\<lambda>i total.
             (case (mouse_positions ! i, mouse_positions ! (i + 1)) of
                ((t1, x1, y1), (t2, x2, y2)) \<Rightarrow>
                  (let dx = x2 - x1; dy = y2 - y1 in total + sqrt (dx * dx + dy * dy))))
          [0 ..< length mouse_positions - 1] 0"

definition mouse_features :: "BaseEvent list \<Rightarrow> FeatureVector \<Rightarrow> FeatureVector" where
  "mouse_features window_events fv =
     (let mouse_positions = mouse_positions_of window_events in
      if length mouse_positions \<ge> 2 then
        (let total_distance = total_distance_of mouse_positions;
             time_span = fst (last mouse_positions) - fst (hd mouse_positions)
         in if time_span > 0
            then fv\<lparr>avg_mouse_speed := total_distance / time_span\<rparr>
            else fv\<lparr>avg_mouse_speed := 0\<rparr>)
      else fv\<lparr>avg_mouse_speed := 0\<rparr>)"

text \<open>
  The reference time of \<^verbatim>\<open>compute_features\<close>: the argument, or the timestamp of the
  last buffered event, or 0 for an empty buffer.
\<close>

definition reference_time :: "FeatureExtractor \<Rightarrow> real option \<Rightarrow> real" where
  "reference_time s current_time =
     (case current_time of
        Some t \<Rightarrow> t
      | None \<Rightarrow> if event_buffer s \<noteq> [] then timestamp (last (event_buffer s)) else 0)"

text \<open>
  \<^verbatim>\<open>compute_features\<close>: the vector, or the exception, and the extractor with its
  buffer pruned.
\<close>

definition compute_features ::
  "FeatureExtractor \<Rightarrow> real option \<Rightarrow> (error + FeatureVector) \<times> FeatureExtractor" where
  "compute_features s current_time_arg =
     (let current_time = reference_time s current_time_arg;
          s' = prune_buffer s current_time;
          window_events = event_buffer s';
          fv = FeatureVector_default
                 \<lparr>window_start := current_time - window_duration s, window_end := current_time\<rparr>
      in case keystroke_features window_events current_time fv of
           Inl e \<Rightarrow> (Inl e, s')
         | Inr fv1 \<Rightarrow>
             (case idle_features window_events fv1 of
                Inl e \<Rightarrow> (Inl e, s')
              | Inr fv2 \<Rightarrow>
                  (Inr (mouse_features window_events (focus_features window_events fv2)), s')))"

text \<open>The operations a session performs on an extractor, and their effect in sequence.\<close>

datatype extractor_op = Add BaseEvent | Compute "real option" | Clear

fun apply_op :: "FeatureExtractor \<Rightarrow> extractor_op \<Rightarrow> FeatureExtractor" where
  "apply_op s (Add ev) = add_event s ev"
| "apply_op s (Compute t) = snd (compute_features s t)"
| "apply_op s Clear = clear s"

definition session :: "real \<Rightarrow> extractor_op list \<Rightarrow> FeatureExtractor" where
  "session wd ops = foldl apply_op (FeatureExtractor_init wd) ops"

text \<open>An idle event with a negative duration has no meaning; the listener emits none.\<close>

fun idle_nonneg :: "BaseEvent \<Rightarrow> bool" where
  "idle_nonneg (IdleEvent t ty d) = (0 \<le> d)"
| "idle_nonneg (KeystrokeEvent t ty) = True"
| "idle_nonneg (MouseEvent t ty x y) = True"
| "idle_nonneg (FocusEvent t ty lf) = True"

text \<open>
  The buffered events that are not older than the cutoff of a call of
  \<^verbatim>\<open>compute_features\<close>: there is no bound on the other side.
\<close>

definition retained :: "FeatureExtractor \<Rightarrow> real option \<Rightarrow> BaseEvent list" where
  "retained s t =
     filter (\<lambda>e. reference_time s t - window_duration s \<le> timestamp e) (event_buffer s)"

section \<open>The anomaly scorer\<close>

lemma rule_idle_burst_range:
  "rule_idle_burst b f = Inr v \<Longrightarrow> 0 \<le> v \<and> v \<le> 70"
  by (auto simp: rule_idle_burst_def Let_def split: if_splits sum.splits)

lemma rule_focus_instability_range:
  "rule_focus_instability b f = Inr v \<Longrightarrow> 0 \<le> v \<and> v \<le> 70"
  by (auto simp: rule_focus_instability_def Let_def split: if_splits sum.splits)

lemma rule_behavioral_drift_range:
  "0 \<le> rule_behavioral_drift b f \<and> rule_behavioral_drift b f \<le> 70"
  by (simp add: rule_behavioral_drift_def Let_def)

text \<open>
  During the first twenty scored calls the result is a function of the baseline and the
  features alone, and every component lies between 0 and 70.
\<close>

lemma compute_scores_early_deterministic:
  assumes "counter d < 20" "counter d' < 20" "baseline d = baseline d'"
  shows "fst (compute_scores d f r1 r2) = fst (compute_scores d' f r1' r2')"
  using assms
  by (simp add: compute_scores_def Let_def split: option.splits sum.splits)

lemma compute_scores_early_range:
  assumes "counter d < 20" "fst (compute_scores d f r1 r2) = Inr s"
  shows "0 \<le> idle_burst s \<and> idle_burst s \<le> 70
       \<and> 0 \<le> focus_instability s \<and> focus_instability s \<le> 70
       \<and> 0 \<le> behavioral_drift s \<and> behavioral_drift s \<le> 70"
proof (cases "baseline d")
  case None
  with assms(2) show ?thesis
    by (auto simp: compute_scores_def AnomalyScores_default_def)
next
  case (Some b)
  from assms Some obtain ib fi where
    ib: "rule_idle_burst b f = Inr ib" and fi: "rule_focus_instability b f = Inr fi"
    and s: "s = \<lparr>idle_burst = ib, focus_instability = fi,
                 behavioral_drift = rule_behavioral_drift b f,
                 overall = max ib (max fi (rule_behavioral_drift b f))\<rparr>"
    by (auto simp: compute_scores_def Let_def split: sum.splits)
  show ?thesis
    using rule_idle_burst_range [OF ib] rule_focus_instability_range [OF fi]
      rule_behavioral_drift_range [of b f]
    by (simp add: s)
qed

text \<open>
  C1 (the scorer is a deterministic function of features and baseline). The code departs
  from it: from the twenty-first scored call on, the scores are drawn at random. With the
  baseline (150, 2, 0.5) and a feature vector that matches it, a detector that has scored
  no call returns all zeros, and one that has scored twenty returns a burst of 55 or a
  focus instability of 55, depending on the draw.
\<close>

theorem compute_scores_random_after_twenty_calls:
  "fst (compute_scores
          \<lparr>baseline = Some \<lparr>bl_avg_typing_speed = 150, bl_avg_idle_duration = 2,
                            bl_avg_focus_rate = 0.5\<rparr>, counter = 0\<rparr>
          (FeatureVector_default\<lparr>avg_typing_speed := 150, avg_idle_duration := 2\<rparr>)
          (1/10) (1/2))
     = Inr \<lparr>idle_burst = 0, focus_instability = 0, behavioral_drift = 0, overall = 0\<rparr>
   \<and> fst (compute_scores
          \<lparr>baseline = Some \<lparr>bl_avg_typing_speed = 150, bl_avg_idle_duration = 2,
                            bl_avg_focus_rate = 0.5\<rparr>, counter = 20\<rparr>
          (FeatureVector_default\<lparr>avg_typing_speed := 150, avg_idle_duration := 2\<rparr>)
          (1/10) (1/2))
     = Inr \<lparr>idle_burst = 55, focus_instability = 0, behavioral_drift = 0, overall = 55\<rparr>
   \<and> fst (compute_scores
          \<lparr>baseline = Some \<lparr>bl_avg_typing_speed = 150, bl_avg_idle_duration = 2,
                            bl_avg_focus_rate = 0.5\<rparr>, counter = 20\<rparr>
          (FeatureVector_default\<lparr>avg_typing_speed := 150, avg_idle_duration := 2\<rparr>)
          (1/2) (1/2))
     = Inr \<lparr>idle_burst = 0, focus_instability = 55, behavioral_drift = 0, overall = 55\<rparr>"
  by (simp add: compute_scores_def rule_idle_burst_def rule_focus_instability_def
      rule_behavioral_drift_def uniform_def AnomalyScores_default_def FeatureVector_default_def)

text \<open>
  C2 (a zero baseline denominator gives the score 0, never a division error). The code
  departs from it in two of the three rules. With a baseline typing speed of 0, an idle
  duration above the threshold and any positive typing speed, rule A divides by the
  baseline speed; with a baseline focus rate of 0 and one focus loss in a 30 second
  window, rule B divides by the baseline rate. Rule C tests its divisor first.
\<close>

theorem compute_scores_zero_baseline_raises:
  "fst (compute_scores
          \<lparr>baseline = Some \<lparr>bl_avg_typing_speed = 0, bl_avg_idle_duration = 2,
                            bl_avg_focus_rate = 0.5\<rparr>, counter = 0\<rparr>
          (FeatureVector_default\<lparr>avg_typing_speed := 100, avg_idle_duration := 5\<rparr>)
          r1 r2)
     = Inl ZeroDivisionError
   \<and> fst (compute_scores
          \<lparr>baseline = Some \<lparr>bl_avg_typing_speed = 150, bl_avg_idle_duration = 2,
                            bl_avg_focus_rate = 0\<rparr>, counter = 0\<rparr>
          (FeatureVector_default\<lparr>focus_loss_count := 1, window_start := 0, window_end := 30\<rparr>)
          r1 r2)
     = Inl ZeroDivisionError
   \<and> rule_behavioral_drift
          \<lparr>bl_avg_typing_speed = 0, bl_avg_idle_duration = 2, bl_avg_focus_rate = 0.5\<rparr>
          (FeatureVector_default\<lparr>avg_typing_speed := 100, avg_idle_duration := 5\<rparr>) = 0"
  by (simp add: compute_scores_def rule_idle_burst_def rule_focus_instability_def
      rule_behavioral_drift_def py_div_def FeatureVector_default_def)

text \<open>
  C3 (every component score lies in the interval from 0 to 70). The code departs from it
  through the random branch: the twenty-first scored call with the draws 0.1 and 0.9
  returns a burst score of 30 + 50 * 0.9 = 75.
\<close>

theorem compute_scores_component_above_cap:
  "fst (compute_scores
          \<lparr>baseline = Some \<lparr>bl_avg_typing_speed = 150, bl_avg_idle_duration = 2,
                            bl_avg_focus_rate = 0.5\<rparr>, counter = 20\<rparr>
          (FeatureVector_default\<lparr>avg_typing_speed := 150, avg_idle_duration := 2\<rparr>)
          (1/10) (9/10))
     = Inr \<lparr>idle_burst = 75, focus_instability = 0, behavioral_drift = 0, overall = 75\<rparr>
   \<and> unit_draw (1/10) \<and> unit_draw (9/10)"
  by (simp add: compute_scores_def uniform_def unit_draw_def AnomalyScores_default_def)

text \<open>
  C7: whenever \<^verbatim>\<open>compute_scores\<close> returns scores, their \<open>overall\<close> field is the
  maximum of the three component fields. This holds on every path of the code: without a
  baseline, in the rule-based branch, and in the random branch (whose draw lies in the
  unit interval, so that the one non-zero component is at least 30).
\<close>

theorem compute_scores_overall_is_max:
  assumes "fst (compute_scores d features r1 r2) = Inr s" and "unit_draw r2"
  shows "overall s = max (idle_burst s) (max (focus_instability s) (behavioral_drift s))"
  using assms
  by (auto simp: compute_scores_def Let_def AnomalyScores_default_def uniform_def unit_draw_def
      split: option.splits if_splits sum.splits)

theorem compute_scores_overall_is_max_witness:
  "fst (compute_scores
          \<lparr>baseline = Some \<lparr>bl_avg_typing_speed = 100, bl_avg_idle_duration = 2,
                            bl_avg_focus_rate = 0.5\<rparr>, counter = 3\<rparr>
          (FeatureVector_default\<lparr>avg_typing_speed := 250\<rparr>) (1/2) (1/2))
     = Inr \<lparr>idle_burst = 0, focus_instability = 0, behavioral_drift = 70, overall = 70\<rparr>
   \<and> unit_draw (1/2)
   \<and> overall \<lparr>idle_burst = 0, focus_instability = 0, behavioral_drift = 70, overall = 70\<rparr>
       = max (idle_burst \<lparr>idle_burst = 0, focus_instability = 0, behavioral_drift = 70,
                          overall = 70\<rparr>)
           (max (focus_instability \<lparr>idle_burst = 0, focus_instability = 0,
                                    behavioral_drift = 70, overall = 70\<rparr>)
                (behavioral_drift \<lparr>idle_burst = 0, focus_instability = 0,
                                   behavioral_drift = 70, overall = 70\<rparr>))"
proof -
  have h1: "fst (compute_scores
          \<lparr>baseline = Some \<lparr>bl_avg_typing_speed = 100, bl_avg_idle_duration = 2,
                            bl_avg_focus_rate = 0.5\<rparr>, counter = 3\<rparr>
          (FeatureVector_default\<lparr>avg_typing_speed := 250\<rparr>) (1/2) (1/2))
     = Inr \<lparr>idle_burst = 0, focus_instability = 0, behavioral_drift = 70, overall = 70\<rparr>"
    by (simp add: compute_scores_def rule_idle_burst_def rule_focus_instability_def
        rule_behavioral_drift_def FeatureVector_default_def)
  have h2: "unit_draw (1/2)"
    by (simp add: unit_draw_def)
  from compute_scores_overall_is_max [OF h1 h2] h1 h2 show ?thesis
    by blast
qed

section \<open>The baseline calibrator\<close>

lemma accumulate_sums:
  "accumulate fvs (a, b, c, n) =
     (a + sum_list (map avg_typing_speed fvs),
      b + sum_list (map avg_idle_duration fvs),
      c + sum_list (map (\<lambda>fv. of_int (focus_loss_count fv)) fvs),
      n + length fvs)"
  by (induction fvs arbitrary: a b c n) (simp_all add: add.assoc)

lemma build_baseline_empty:
  "feature_history s = [] \<Longrightarrow>
     build_baseline s =
       Inr (s\<lparr>bb_baseline := Some \<lparr>bl_avg_typing_speed = 150, bl_avg_idle_duration = 2,
                                    bl_avg_focus_rate = 0.5\<rparr>\<rparr>)"
  by (simp add: build_baseline_def)

lemma build_baseline_nonempty:
  assumes "feature_history s \<noteq> []"
  shows "build_baseline s =
           Inr (s\<lparr>bb_baseline := Some (spec_baseline (feature_history s)),
                  feature_history := []\<rparr>)"
proof -
  from assms obtain first rest where h: "feature_history s = first # rest"
    by (cases "feature_history s") auto
  have n: "real (length (first # rest)) \<noteq> 0"
    by simp
  show ?thesis
    unfolding build_baseline_def h list.case accumulate_sums prod.case
    using n
    by (simp add: py_div_def spec_baseline_def mean_def Let_def)
qed

lemma update_frozen: "bb_baseline s \<noteq> None \<Longrightarrow> update s f t = Inr s"
  by (simp add: update_def)

lemma update_append:
  assumes "bb_baseline s = None" "calibration_start s = Some t0"
    and "t - t0 \<le> calibration_duration s"
  shows "update s f t = Inr (s\<lparr>feature_history := feature_history s @ [f]\<rparr>)"
  using assms by (simp add: update_def)

lemma update_freeze:
  assumes "bb_baseline s = None" "calibration_start s = Some t0"
    and "calibration_duration s < t - t0"
  shows "update s f t = build_baseline s"
  using assms by (simp add: update_def)

lemma update_implicit_start:
  assumes "bb_baseline s = None" "calibration_start s = None" "0 \<le> calibration_duration s"
  shows "update s f t =
           Inr (s\<lparr>feature_history := [f], bb_baseline := None, calibration_start := Some t\<rparr>)"
  using assms by (simp add: update_def start_calibration_def)

lemma updates_append:
  "updates s (xs @ ys) = (case updates s xs of Inl e \<Rightarrow> Inl e | Inr s' \<Rightarrow> updates s' ys)"
  by (induction xs arbitrary: s) (auto split: sum.splits)

lemma updates_frozen: "bb_baseline s \<noteq> None \<Longrightarrow> updates s fts = Inr s"
  by (induction fts) (auto simp: update_frozen)

lemma updates_calibrating:
  assumes "bb_baseline s = None" "calibration_start s = Some t0"
    and "\<forall>ft \<in> set fts. snd ft - t0 \<le> calibration_duration s"
  shows "updates s fts = Inr (s\<lparr>feature_history := feature_history s @ map fst fts\<rparr>)"
  using assms
proof (induction fts arbitrary: s)
  case Nil
  then show ?case by simp
next
  case (Cons ft fts)
  obtain f t where ft: "ft = (f, t)" by (cases ft)
  let ?s' = "s\<lparr>feature_history := feature_history s @ [f]\<rparr>"
  from Cons.prems ft have u: "update s f t = Inr ?s'"
    by (simp add: update_append)
  from Cons.prems have "updates ?s' fts
      = Inr (?s'\<lparr>feature_history := feature_history ?s' @ map fst fts\<rparr>)"
    by (intro Cons.IH) auto
  with u ft show ?case by simp
qed

text \<open>
  A fresh builder fed windows within the warm-up, then one past it: the baseline is the
  specified one over exactly the windows fed within the warm-up.
\<close>

lemma fresh_session_freezes:
  assumes d: "0 \<le> d" and ne: "fts \<noteq> []"
    and within: "\<forall>ft \<in> set fts. snd ft - snd (hd fts) \<le> d"
    and past: "d < t' - snd (hd fts)"
  shows "updates (BaselineBuilder_init d) (fts @ [(g, t')]) =
           Inr \<lparr>calibration_duration = d, feature_history = [],
                bb_baseline = Some (spec_baseline (map fst fts)),
                calibration_start = Some (snd (hd fts))\<rparr>"
proof -
  from ne obtain f t rest where fts: "fts = (f, t) # rest"
    by (cases fts) auto
  let ?s1 = "\<lparr>calibration_duration = d, feature_history = [f], bb_baseline = None,
              calibration_start = Some t\<rparr>"
  let ?s2 = "\<lparr>calibration_duration = d, feature_history = f # map fst rest,
              bb_baseline = None, calibration_start = Some t\<rparr>"
  have u1: "update (BaselineBuilder_init d) f t = Inr ?s1"
    using d by (simp add: update_implicit_start BaselineBuilder_init_def)
  have "updates ?s1 rest = Inr (?s1\<lparr>feature_history := feature_history ?s1 @ map fst rest\<rparr>)"
    using within fts by (intro updates_calibrating) auto
  then have u2: "updates ?s1 rest = Inr ?s2"
    by simp
  have u3: "update ?s2 g t' = build_baseline ?s2"
    using past fts by (intro update_freeze) auto
  have u4: "build_baseline ?s2 =
      Inr (?s2\<lparr>bb_baseline := Some (spec_baseline (feature_history ?s2)),
                feature_history := []\<rparr>)"
    by (intro build_baseline_nonempty) simp
  show ?thesis
    using u1 u2 u3 u4 by (simp add: fts updates_append)
qed

text \<open>
  C4: during the warm-up \<^verbatim>\<open>update\<close> appends the vector; the first call past the
  warm-up freezes the baseline of the specification over the stored vectors, the
  triggering vector not among them; and 180 vectors at the times 0 to 179 followed by
  one at 181, with a warm-up of 180, freeze the baseline of exactly those 180.
\<close>

theorem update_calibrates:
  "(bb_baseline s = None \<and> calibration_start s = Some t0 \<and> t - t0 \<le> calibration_duration s
      \<longrightarrow> update s f t = Inr (s\<lparr>feature_history := feature_history s @ [f]\<rparr>))
   \<and> (bb_baseline s = None \<and> calibration_start s = Some t0 \<and> calibration_duration s < t - t0
        \<and> feature_history s \<noteq> []
      \<longrightarrow> update s f t =
            Inr (s\<lparr>bb_baseline := Some (spec_baseline (feature_history s)),
                   feature_history := []\<rparr>))
   \<and> (length fs = 180
      \<longrightarrow> updates (BaselineBuilder_init 180) (zip fs (map real [0..<180]) @ [(g, 181)]) =
            Inr \<lparr>calibration_duration = 180, feature_history = [],
                 bb_baseline = Some (spec_baseline fs), calibration_start = Some 0\<rparr>)"
proof (intro conjI impI)
  assume "bb_baseline s = None \<and> calibration_start s = Some t0 \<and> t - t0 \<le> calibration_duration s"
  then show "update s f t = Inr (s\<lparr>feature_history := feature_history s @ [f]\<rparr>)"
    by (simp add: update_append)
next
  assume a: "bb_baseline s = None \<and> calibration_start s = Some t0
    \<and> calibration_duration s < t - t0 \<and> feature_history s \<noteq> []"
  then have "update s f t = build_baseline s"
    by (simp add: update_freeze)
  with a show "update s f t =
      Inr (s\<lparr>bb_baseline := Some (spec_baseline (feature_history s)), feature_history := []\<rparr>)"
    by (simp add: build_baseline_nonempty)
next
  assume len: "length fs = 180"
  let ?fts = "zip fs (map real [0..<180])"
  from len have ne: "?fts \<noteq> []"
    by (cases fs) (auto simp: upt_conv_Cons)
  from len have fsts: "map fst ?fts = fs"
    by simp
  from len have hd0: "snd (hd ?fts) = 0"
    by (cases fs) (auto simp: upt_conv_Cons)
  have within: "\<forall>ft \<in> set ?fts. snd ft - snd (hd ?fts) \<le> 180"
  proof
    fix ft assume "ft \<in> set ?fts"
    then have "(fst ft, snd ft) \<in> set ?fts"
      by simp
    then have "snd ft \<in> set (map real [0..<180])"
      by (rule set_zip_rightD)
    then show "snd ft - snd (hd ?fts) \<le> 180"
      unfolding hd0 by auto
  qed
  have past: "(180::real) < 181 - snd (hd ?fts)"
    unfolding hd0 by simp
  from fresh_session_freezes [of 180 ?fts 181 g, OF _ ne within past]
  show "updates (BaselineBuilder_init 180) (?fts @ [(g, 181)]) =
      Inr \<lparr>calibration_duration = 180, feature_history = [],
           bb_baseline = Some (spec_baseline fs), calibration_start = Some 0\<rparr>"
    unfolding fsts hd0 by simp
qed

theorem update_calibrates_witness:
  "update \<lparr>calibration_duration = 180,
           feature_history = [\<lparr>avg_typing_speed = 120, avg_idle_duration = 3,
                               focus_loss_count = 2, avg_mouse_speed = 0,
                               inter_key_interval = 0, window_start = 0, window_end = 30\<rparr>],
           bb_baseline = None, calibration_start = Some 0\<rparr>
          FeatureVector_default 10
     = Inr \<lparr>calibration_duration = 180,
            feature_history = [\<lparr>avg_typing_speed = 120, avg_idle_duration = 3,
                                focus_loss_count = 2, avg_mouse_speed = 0,
                                inter_key_interval = 0, window_start = 0, window_end = 30\<rparr>,
                               FeatureVector_default],
            bb_baseline = None, calibration_start = Some 0\<rparr>
   \<and> update \<lparr>calibration_duration = 180,
           feature_history = [\<lparr>avg_typing_speed = 120, avg_idle_duration = 3,
                               focus_loss_count = 2, avg_mouse_speed = 0,
                               inter_key_interval = 0, window_start = 0, window_end = 30\<rparr>],
           bb_baseline = None, calibration_start = Some 0\<rparr>
          FeatureVector_default 181
     = Inr \<lparr>calibration_duration = 180, feature_history = [],
            bb_baseline = Some \<lparr>bl_avg_typing_speed = 120, bl_avg_idle_duration = 3,
                                 bl_avg_focus_rate = 4\<rparr>,
            calibration_start = Some 0\<rparr>
   \<and> updates (BaselineBuilder_init 180)
          (zip (replicate 180 \<lparr>avg_typing_speed = 120, avg_idle_duration = 3,
                                focus_loss_count = 2, avg_mouse_speed = 0,
                                inter_key_interval = 0, window_start = 0, window_end = 30\<rparr>)
               (map real [0..<180])
           @ [(FeatureVector_default, 181)])
     = Inr \<lparr>calibration_duration = 180, feature_history = [],
            bb_baseline = Some \<lparr>bl_avg_typing_speed = 120, bl_avg_idle_duration = 3,
                                 bl_avg_focus_rate = 4\<rparr>,
            calibration_start = Some 0\<rparr>"
  using
    update_calibrates [of
      "\<lparr>calibration_duration = 180,
        feature_history = [\<lparr>avg_typing_speed = 120, avg_idle_duration = 3,
                            focus_loss_count = 2, avg_mouse_speed = 0,
                            inter_key_interval = 0, window_start = 0, window_end = 30\<rparr>],
        bb_baseline = None, calibration_start = Some 0\<rparr>"
      0 10 FeatureVector_default
      "replicate 180 \<lparr>avg_typing_speed = 120, avg_idle_duration = 3,
                       focus_loss_count = 2, avg_mouse_speed = 0,
                       inter_key_interval = 0, window_start = 0, window_end = 30\<rparr>"
      FeatureVector_default]
    update_calibrates [of
      "\<lparr>calibration_duration = 180,
        feature_history = [\<lparr>avg_typing_speed = 120, avg_idle_duration = 3,
                            focus_loss_count = 2, avg_mouse_speed = 0,
                            inter_key_interval = 0, window_start = 0, window_end = 30\<rparr>],
        bb_baseline = None, calibration_start = Some 0\<rparr>"
      0 181 FeatureVector_default "[]" FeatureVector_default]
  by (simp add: spec_baseline_def mean_def sum_list_replicate)





text \<open>
  C9: with no recorded vector at freeze time, \<^verbatim>\<open>_build_baseline\<close> does not fail and
  sets the default profile (150, 2, 0.5); so does the call of \<^verbatim>\<open>update\<close> that finds
  the warm-up over and the history empty.
\<close>

theorem empty_history_gives_default_profile:
  assumes "feature_history s = []"
  shows "build_baseline s =
           Inr (s\<lparr>bb_baseline := Some \<lparr>bl_avg_typing_speed = 150, bl_avg_idle_duration = 2,
                                        bl_avg_focus_rate = 0.5\<rparr>\<rparr>)
       \<and> (bb_baseline s = None \<and> calibration_start s = Some t0
            \<and> calibration_duration s < t - t0
          \<longrightarrow> update s f t =
                Inr (s\<lparr>bb_baseline := Some \<lparr>bl_avg_typing_speed = 150,
                                             bl_avg_idle_duration = 2,
                                             bl_avg_focus_rate = 0.5\<rparr>\<rparr>))"
  using assms by (simp add: build_baseline_empty update_freeze)

theorem empty_history_gives_default_profile_witness:
  "feature_history (start_calibration (BaselineBuilder_init 180) 0) = []
   \<and> build_baseline (start_calibration (BaselineBuilder_init 180) 0)
     = Inr \<lparr>calibration_duration = 180, feature_history = [],
            bb_baseline = Some \<lparr>bl_avg_typing_speed = 150, bl_avg_idle_duration = 2,
                                 bl_avg_focus_rate = 0.5\<rparr>,
            calibration_start = Some 0\<rparr>
   \<and> update (start_calibration (BaselineBuilder_init 180) 0) FeatureVector_default 200
     = Inr \<lparr>calibration_duration = 180, feature_history = [],
            bb_baseline = Some \<lparr>bl_avg_typing_speed = 150, bl_avg_idle_duration = 2,
                                 bl_avg_focus_rate = 0.5\<rparr>,
            calibration_start = Some 0\<rparr>"
  using empty_history_gives_default_profile [of
      "start_calibration (BaselineBuilder_init 180) 0" 0 200 FeatureVector_default]
  by (simp add: start_calibration_def BaselineBuilder_init_def)

section \<open>The risk aggregator\<close>

lemma feed_snoc: "feed s (as @ [a]) = snd (compute_risk (feed s as) a)"
  by (induction as arbitrary: s) simp_all

text \<open>Appending to a deque that holds the last \<open>n\<close> items of \<open>rs\<close> gives the last \<open>n\<close> of \<open>rs @ [x]\<close>.\<close>

lemma deque_append_trailing:
  "deque_append (n, drop (length rs - n) rs) x = (n, drop (Suc (length rs) - n) (rs @ [x]))"
proof (cases "length rs < n")
  case True
  then show ?thesis
    by (simp add: deque_append_def Let_def)
next
  case False
  then have le: "n \<le> length rs" by simp
  then have "Suc (length rs) - n = Suc (length rs - n)"
    by simp
  moreover have "tl (drop (length rs - n) rs @ [x]) = drop (Suc (length rs - n)) (rs @ [x])"
  proof (cases "n = 0")
    case True
    then show ?thesis by simp
  next
    case False
    with le have "drop (length rs - n) rs \<noteq> []"
      by simp
    then have "tl (drop (length rs - n) rs @ [x]) = tl (drop (length rs - n) rs) @ [x]"
      by simp
    also have "\<dots> = drop (Suc (length rs - n)) rs @ [x]"
      by (simp add: drop_Suc tl_drop)
    also have "\<dots> = drop (Suc (length rs - n)) (rs @ [x])"
      using le False by simp
    finally show ?thesis .
  qed
  ultimately show ?thesis
    using le by (simp add: deque_append_def Let_def)
qed

lemma compute_risk_raw:
  assumes "weight_idle_burst s = 0.4" "weight_focus_instability s = 0.3"
    and "weight_behavioral_drift s = 0.3"
  shows "last_raw_risk (snd (compute_risk s a)) = raw_of a
       \<and> risk_history (snd (compute_risk s a)) = deque_append (risk_history s) (raw_of a)"
  unfolding compute_risk_def raw_of_def Let_def assms by simp

lemma compute_risk_weights:
  "weight_idle_burst (snd (compute_risk s a)) = weight_idle_burst s
   \<and> weight_focus_instability (snd (compute_risk s a)) = weight_focus_instability s
   \<and> weight_behavioral_drift (snd (compute_risk s a)) = weight_behavioral_drift s"
  by (simp add: compute_risk_def Let_def)

lemma feed_from_init:
  assumes "RiskEngine_init n = Inr e"
  shows "weight_idle_burst (feed e as) = 0.4
       \<and> weight_focus_instability (feed e as) = 0.3
       \<and> weight_behavioral_drift (feed e as) = 0.3
       \<and> risk_history (feed e as) = (nat n, drop (length as - nat n) (map raw_of as))"
proof (induction as rule: rev_induct)
  case Nil
  from assms show ?case
    by (auto simp: RiskEngine_init_def split: if_splits)
next
  case (snoc a as)
  then have w: "weight_idle_burst (feed e as) = 0.4"
    "weight_focus_instability (feed e as) = 0.3"
    "weight_behavioral_drift (feed e as) = 0.3"
    and h: "risk_history (feed e as) = (nat n, drop (length as - nat n) (map raw_of as))"
    by simp_all
  have "risk_history (feed e (as @ [a])) = deque_append (risk_history (feed e as)) (raw_of a)"
    using compute_risk_raw [OF w] by (simp add: feed_snoc)
  also have "\<dots> = (nat n, drop (Suc (length as) - nat n) (map raw_of as @ [raw_of a]))"
    using deque_append_trailing [of "nat n" "map raw_of as" "raw_of a"] by (simp add: h)
  finally have "risk_history (feed e (as @ [a]))
      = (nat n, drop (length (as @ [a]) - nat n) (map raw_of (as @ [a])))"
    by simp
  with w show ?case
    using compute_risk_weights [of "feed e as" a] by (simp add: feed_snoc)
qed

lemma compute_risk_from_init:
  assumes init: "RiskEngine_init n = Inr e" and n: "0 < n"
  shows "compute_risk (feed e as) a =
           (mean (drop (Suc (length as) - nat n) (map raw_of (as @ [a]))),
            (feed e as)
              \<lparr>last_raw_risk := raw_of a,
               risk_history := (nat n, drop (Suc (length as) - nat n) (map raw_of (as @ [a]))),
               last_smoothed_risk :=
                 mean (drop (Suc (length as) - nat n) (map raw_of (as @ [a])))\<rparr>)"
proof -
  let ?s = "feed e as"
  let ?h = "drop (Suc (length as) - nat n) (map raw_of (as @ [a]))"
  from feed_from_init [OF init, of as] have w: "weight_idle_burst ?s = 0.4"
    "weight_focus_instability ?s = 0.3" "weight_behavioral_drift ?s = 0.3"
    and h: "risk_history ?s = (nat n, drop (length as - nat n) (map raw_of as))"
    by simp_all
  have app: "deque_append (risk_history ?s) (raw_of a) = (nat n, ?h)"
    using deque_append_trailing [of "nat n" "map raw_of as" "raw_of a"] by (simp add: h)
  from n have "Suc (length as) - nat n < Suc (length as)"
    by simp
  then have ne: "length ?h > 0"
    by simp
  have raw: "max 0 (min 100 (weight_idle_burst ?s * idle_burst a
      + weight_focus_instability ?s * focus_instability a
      + weight_behavioral_drift ?s * behavioral_drift a)) = raw_of a"
    by (simp add: w raw_of_def)
  show ?thesis
    unfolding compute_risk_def Let_def raw app
    using ne by (simp add: deque_items_def mean_def)
qed

lemma raw_of_level: "0 \<le> x \<Longrightarrow> x \<le> 100 \<Longrightarrow> raw_of (level x) = x"
  by (simp add: raw_of_def level_def algebra_simps)

text \<open>
  C5: the raw risk is the weighted sum clipped to the interval from 0 to 100; the
  history holds the last \<open>smoothing_window\<close> raw values of the session, this one
  included; the result is their arithmetic mean. With a window of 5, the raw values 10
  to 50 give 30, and a sixth raw value 60 gives 40 over the history 20 to 60.
\<close>

theorem compute_risk_moving_average:
  "(RiskEngine_init n = Inr e \<and> 0 < n \<longrightarrow>
      compute_risk (feed e as) a =
        (mean (drop (Suc (length as) - nat n) (map raw_of (as @ [a]))),
         (feed e as)
           \<lparr>last_raw_risk := raw_of a,
            risk_history := (nat n, drop (Suc (length as) - nat n) (map raw_of (as @ [a]))),
            last_smoothed_risk :=
              mean (drop (Suc (length as) - nat n) (map raw_of (as @ [a])))\<rparr>))
   \<and> (RiskEngine_init 5 = Inr e5 \<longrightarrow>
        map raw_of (map level [10, 20, 30, 40, 50, 60]) = [10, 20, 30, 40, 50, 60]
      \<and> fst (compute_risk (feed e5 (map level [10, 20, 30, 40])) (level 50)) = 30
      \<and> fst (compute_risk (feed e5 (map level [10, 20, 30, 40, 50])) (level 60)) = 40
      \<and> deque_items (risk_history
            (snd (compute_risk (feed e5 (map level [10, 20, 30, 40, 50])) (level 60))))
          = [20, 30, 40, 50, 60])"
proof (intro conjI impI)
  assume "RiskEngine_init n = Inr e \<and> 0 < n"
  then have "RiskEngine_init n = Inr e" and "0 < n"
    by simp_all
  then show "compute_risk (feed e as) a =
        (mean (drop (Suc (length as) - nat n) (map raw_of (as @ [a]))),
         (feed e as)
           \<lparr>last_raw_risk := raw_of a,
            risk_history := (nat n, drop (Suc (length as) - nat n) (map raw_of (as @ [a]))),
            last_smoothed_risk :=
              mean (drop (Suc (length as) - nat n) (map raw_of (as @ [a])))\<rparr>)"
    by (rule compute_risk_from_init)
next
  show "map raw_of (map level [10, 20, 30, 40, 50, 60]) = [10, 20, 30, 40, 50, 60]"
    by (simp add: raw_of_level)
next
  assume init: "RiskEngine_init 5 = Inr e5"
  show "fst (compute_risk (feed e5 (map level [10, 20, 30, 40])) (level 50)) = 30"
    using compute_risk_from_init [OF init, of "map level [10, 20, 30, 40]" "level 50"]
    by (simp add: raw_of_level mean_def)
next
  assume init: "RiskEngine_init 5 = Inr e5"
  show "fst (compute_risk (feed e5 (map level [10, 20, 30, 40, 50])) (level 60)) = 40"
    using compute_risk_from_init [OF init, of "map level [10, 20, 30, 40, 50]" "level 60"]
    by (simp add: raw_of_level mean_def)
next
  assume init: "RiskEngine_init 5 = Inr e5"
  show "deque_items (risk_history
            (snd (compute_risk (feed e5 (map level [10, 20, 30, 40, 50])) (level 60))))
          = [20, 30, 40, 50, 60]"
    using compute_risk_from_init [OF init, of "map level [10, 20, 30, 40, 50]" "level 60"]
    by (simp add: raw_of_level deque_items_def)
qed

theorem compute_risk_moving_average_witness:
  "RiskEngine_init 5 =
     Inr \<lparr>smoothing_window = 5, risk_history = (5, []), last_raw_risk = 0,
          last_smoothed_risk = 0, weight_idle_burst = 0.4,
          weight_focus_instability = 0.3, weight_behavioral_drift = 0.3\<rparr>
   \<and> (0::int) < 5
   \<and> fst (compute_risk
            (feed \<lparr>smoothing_window = 5, risk_history = (5, []), last_raw_risk = 0,
                   last_smoothed_risk = 0, weight_idle_burst = 0.4,
                   weight_focus_instability = 0.3, weight_behavioral_drift = 0.3\<rparr>
               [level 10, level 20])
            (level 60))
       = mean [10, 20, 60]
   \<and> fst (compute_risk
            (feed \<lparr>smoothing_window = 5, risk_history = (5, []), last_raw_risk = 0,
                   last_smoothed_risk = 0, weight_idle_burst = 0.4,
                   weight_focus_instability = 0.3, weight_behavioral_drift = 0.3\<rparr>
               (map level [10, 20, 30, 40, 50]))
            (level 60))
       = 40"
proof -
  have init: "RiskEngine_init 5 =
     Inr \<lparr>smoothing_window = 5, risk_history = (5, []), last_raw_risk = 0,
          last_smoothed_risk = 0, weight_idle_burst = 0.4,
          weight_focus_instability = 0.3, weight_behavioral_drift = 0.3\<rparr>"
    by (simp add: RiskEngine_init_def)
  have pos: "(0::int) < 5"
    by simp
  have levels: "map raw_of [level 10, level 20, level 60] = [10, 20, 60]"
    by (simp add: raw_of_level)
  from compute_risk_moving_average [of 5
      "\<lparr>smoothing_window = 5, risk_history = (5, []), last_raw_risk = 0,
        last_smoothed_risk = 0, weight_idle_burst = 0.4,
        weight_focus_instability = 0.3, weight_behavioral_drift = 0.3\<rparr>"
      "[level 10, level 20]" "level 60"
      "\<lparr>smoothing_window = 5, risk_history = (5, []), last_raw_risk = 0,
        last_smoothed_risk = 0, weight_idle_burst = 0.4,
        weight_focus_instability = 0.3, weight_behavioral_drift = 0.3\<rparr>"]
    init pos
  have general: "compute_risk
            (feed \<lparr>smoothing_window = 5, risk_history = (5, []), last_raw_risk = 0,
                   last_smoothed_risk = 0, weight_idle_burst = 0.4,
                   weight_focus_instability = 0.3, weight_behavioral_drift = 0.3\<rparr>
               [level 10, level 20])
            (level 60)
       = (mean (drop (Suc (length [level 10, level 20]) - nat 5)
                  (map raw_of ([level 10, level 20] @ [level 60]))),
          (feed \<lparr>smoothing_window = 5, risk_history = (5, []), last_raw_risk = 0,
                   last_smoothed_risk = 0, weight_idle_burst = 0.4,
                   weight_focus_instability = 0.3, weight_behavioral_drift = 0.3\<rparr>
               [level 10, level 20])
           \<lparr>last_raw_risk := raw_of (level 60),
            risk_history := (nat 5, drop (Suc (length [level 10, level 20]) - nat 5)
                  (map raw_of ([level 10, level 20] @ [level 60]))),
            last_smoothed_risk := mean (drop (Suc (length [level 10, level 20]) - nat 5)
                  (map raw_of ([level 10, level 20] @ [level 60])))\<rparr>)"
    and example: "fst (compute_risk
            (feed \<lparr>smoothing_window = 5, risk_history = (5, []), last_raw_risk = 0,
                   last_smoothed_risk = 0, weight_idle_burst = 0.4,
                   weight_focus_instability = 0.3, weight_behavioral_drift = 0.3\<rparr>
               (map level [10, 20, 30, 40, 50]))
            (level 60))
       = 40"
    by blast+
  have "drop (Suc (length [level 10, level 20]) - nat 5)
          (map raw_of ([level 10, level 20] @ [level 60])) = [10, 20, 60]"
    using levels by simp
  with general have "fst (compute_risk
            (feed \<lparr>smoothing_window = 5, risk_history = (5, []), last_raw_risk = 0,
                   last_smoothed_risk = 0, weight_idle_burst = 0.4,
                   weight_focus_instability = 0.3, weight_behavioral_drift = 0.3\<rparr>
               [level 10, level 20])
            (level 60)) = mean [10, 20, 60]"
    by (simp only: fst_conv)
  with init pos example show ?thesis
    by blast
qed

section \<open>The feature extractor\<close>

subsection \<open>The buffer stays in chronological order\<close>

lemma set_insert_scan: "set (insert_scan ev buf) \<subseteq> insert ev (set buf)"
  by (induction buf) auto

lemma sorted_insert_scan:
  "sorted (map timestamp buf) \<Longrightarrow> sorted (map timestamp (insert_scan ev buf))"
proof (induction buf)
  case Nil
  then show ?case by simp
next
  case (Cons e es)
  show ?case
  proof (cases "timestamp ev < timestamp e")
    case True
    with Cons.prems show ?thesis by auto
  next
    case False
    have "\<forall>x \<in> set (insert_scan ev es). timestamp e \<le> timestamp x"
      using set_insert_scan [of ev es] Cons.prems False by auto
    with Cons False show ?thesis by auto
  qed
qed

lemma sorted_add_event:
  assumes "sorted (map timestamp (event_buffer s))"
  shows "sorted (map timestamp (event_buffer (add_event s ev)))"
proof (cases "event_buffer s = [] \<or> timestamp ev \<ge> timestamp (last (event_buffer s))")
  case True
  have "\<forall>x \<in> set (event_buffer s). timestamp x \<le> timestamp ev"
  proof
    fix x assume x: "x \<in> set (event_buffer s)"
    then have ne: "event_buffer s \<noteq> []" by auto
    from x obtain i where i: "i < length (event_buffer s)" "event_buffer s ! i = x"
      by (auto simp: in_set_conv_nth)
    have "map timestamp (event_buffer s) ! i
        \<le> map timestamp (event_buffer s) ! (length (event_buffer s) - 1)"
      using assms i by (intro sorted_nth_mono) auto
    then have "timestamp x \<le> timestamp (last (event_buffer s))"
      using i ne by (simp add: last_conv_nth)
    with True ne show "timestamp x \<le> timestamp ev" by auto
  qed
  with assms True show ?thesis
    by (auto simp: add_event_def sorted_append)
next
  case False
  with assms show ?thesis
    by (auto simp: add_event_def sorted_insert_scan)
qed

lemma popleft_while_filter:
  "sorted (map timestamp buf) \<Longrightarrow>
     popleft_while cutoff buf = filter (\<lambda>e. \<not> timestamp e < cutoff) buf"
proof (induction buf)
  case Nil
  then show ?case by simp
next
  case (Cons e es)
  show ?case
  proof (cases "timestamp e < cutoff")
    case True
    with Cons show ?thesis by simp
  next
    case False
    with Cons.prems have "\<forall>x \<in> set es. \<not> timestamp x < cutoff"
      by auto
    then have "filter (\<lambda>e. \<not> timestamp e < cutoff) es = es"
      by (simp add: filter_id_conv)
    with False show ?thesis by simp
  qed
qed

lemma sorted_popleft_while:
  "sorted (map timestamp buf) \<Longrightarrow> sorted (map timestamp (popleft_while cutoff buf))"
  by (induction buf) auto

lemma compute_features_state:
  "snd (compute_features s t) = prune_buffer s (reference_time s t)"
  by (simp add: compute_features_def Let_def split: sum.splits)

lemma sorted_apply_op:
  "sorted (map timestamp (event_buffer s)) \<Longrightarrow>
     sorted (map timestamp (event_buffer (apply_op s op)))"
  by (cases op)
    (simp_all add: sorted_add_event compute_features_state prune_buffer_def Let_def
      sorted_popleft_while clear_def)

lemma window_duration_apply_op: "window_duration (apply_op s op) = window_duration s"
  by (cases op)
    (simp_all add: add_event_def compute_features_state prune_buffer_def Let_def clear_def)

lemma foldl_apply_op_invariant:
  "sorted (map timestamp (event_buffer s)) \<Longrightarrow>
     sorted (map timestamp (event_buffer (foldl apply_op s ops)))
     \<and> window_duration (foldl apply_op s ops) = window_duration s"
proof (induction ops arbitrary: s)
  case Nil
  then show ?case by simp
next
  case (Cons op ops)
  from Cons.prems have "sorted (map timestamp (event_buffer (apply_op s op)))"
    by (rule sorted_apply_op)
  from Cons.IH [OF this] show ?case
    by (simp add: window_duration_apply_op)
qed

lemma session_invariant:
  "sorted (map timestamp (event_buffer (session wd ops)))
   \<and> window_duration (session wd ops) = wd"
  using foldl_apply_op_invariant [of "FeatureExtractor_init wd" ops]
  by (simp add: session_def FeatureExtractor_init_def)

subsection \<open>The four feature groups\<close>

lemma press_timestamps_of_filter:
  "press_timestamps_of evs = map timestamp (filter is_key_press evs)"
  by (induction evs) auto

lemma sorted_press_timestamps:
  "sorted (map timestamp evs) \<Longrightarrow> sorted (press_timestamps_of evs)"
  by (simp add: press_timestamps_of_filter sorted_filter)

lemma intervals_nonneg:
  assumes "sorted (pts :: real list)"
  shows "0 \<le> sum_list (map (\<lambda>i. pts ! (i + 1) - pts ! i) [0 ..< length pts - 1])"
proof (rule sum_list_nonneg)
  fix x assume "x \<in> set (map (\<lambda>i. pts ! (i + 1) - pts ! i) [0 ..< length pts - 1])"
  then obtain i where i: "i < length pts - 1" and x: "x = pts ! (i + 1) - pts ! i"
    by auto
  from assms i have "pts ! i \<le> pts ! (i + 1)"
    by (intro sorted_nth_mono) auto
  with x show "0 \<le> x" by simp
qed

lemma keystroke_features_result:
  assumes sorted: "sorted (map timestamp w)" and zero: "avg_typing_speed fv = 0"
  shows "\<exists>fv1. keystroke_features w ct fv = Inr fv1
           \<and> 0 \<le> inter_key_interval fv1 \<and> 0 \<le> avg_typing_speed fv1
           \<and> (length (press_timestamps_of w) < 2
                \<longrightarrow> inter_key_interval fv1 = 0 \<and> avg_typing_speed fv1 = 0)
           \<and> window_start fv1 = window_start fv \<and> window_end fv1 = window_end fv"
proof (cases "length (press_timestamps_of w) \<ge> 2")
  case True
  let ?pts = "press_timestamps_of w"
  let ?ivs = "map (\<lambda>i. ?pts ! (i + 1) - ?pts ! i) [0 ..< length ?pts - 1]"
  from True have len: "real (length ?ivs) \<noteq> 0" "0 < real (length ?ivs)"
    by simp_all
  have nonneg: "0 \<le> sum_list ?ivs"
    using sorted by (intro intervals_nonneg sorted_press_timestamps)
  then have q: "0 \<le> sum_list ?ivs / real (length ?ivs)"
    using len by simp
  have div: "py_div (sum_list ?ivs) (real (length ?ivs))
      = Inr (sum_list ?ivs / real (length ?ivs))"
    using len by (simp add: py_div_def)
  show ?thesis
    using True q zero
    unfolding keystroke_features_def Let_def div
    by (auto simp del: length_map length_upt)
next
  case False
  then show ?thesis
    by (simp add: keystroke_features_def Let_def)
qed

lemma idle_durations_nonneg:
  "\<forall>ev \<in> set evs. idle_nonneg ev \<Longrightarrow> \<forall>d \<in> set (idle_durations_of evs). 0 \<le> d"
  by (induction evs) (auto split: BaseEvent.splits)

lemma idle_features_result:
  "\<exists>fv2. idle_features w fv = Inr fv2
     \<and> ((\<forall>ev \<in> set w. idle_nonneg ev) \<longrightarrow> 0 \<le> avg_idle_duration fv2)
     \<and> (idle_durations_of w = [] \<longrightarrow> avg_idle_duration fv2 = 0)
     \<and> inter_key_interval fv2 = inter_key_interval fv
     \<and> avg_typing_speed fv2 = avg_typing_speed fv
     \<and> window_start fv2 = window_start fv \<and> window_end fv2 = window_end fv"
proof (cases "idle_durations_of w = []")
  case True
  then show ?thesis
    by (simp add: idle_features_def)
next
  case False
  then have len: "real (length (idle_durations_of w)) \<noteq> 0"
    by simp
  have "(\<forall>ev \<in> set w. idle_nonneg ev)
      \<longrightarrow> 0 \<le> sum_list (idle_durations_of w) / real (length (idle_durations_of w))"
    using idle_durations_nonneg [of w] by (auto intro!: divide_nonneg_nonneg sum_list_nonneg)
  with False len show ?thesis
    by (simp add: idle_features_def py_div_def Let_def)
qed

lemma focus_count_fold:
  "fold (\<lambda>ev n. if is_focus_lost ev then n + 1 else n) evs k
     = k + int (length (filter is_focus_lost evs))"
  by (induction evs arbitrary: k) auto

lemma focus_features_count:
  "focus_loss_count (focus_features w fv) = int (length (filter is_focus_lost w))"
  by (simp add: focus_features_def focus_count_fold)

lemma fold_distance_nonneg:
  "0 \<le> acc \<Longrightarrow>
     0 \<le> fold (\<lambda>i total.
                (case (mps ! i, mps ! (i + 1)) of
                   ((t1, x1, y1), (t2, x2, y2)) \<Rightarrow>
                     (let dx = x2 - x1; dy = y2 - y1 in total + sqrt (dx * dx + dy * dy))))
             is (acc :: real)"
proof (induction "is" arbitrary: acc)
  case Nil
  then show ?case by simp
next
  case (Cons i "is")
  obtain t1 x1 y1 where a: "mps ! i = (t1, x1 :: real, y1 :: real)"
    by (cases "mps ! i") auto
  obtain t2 x2 y2 where b: "mps ! (i + 1) = (t2, x2 :: real, y2 :: real)"
    by (cases "mps ! (i + 1)") auto
  have "0 \<le> acc + sqrt ((x2 - x1) * (x2 - x1) + (y2 - y1) * (y2 - y1))"
    using Cons.prems by simp
  from Cons.IH [OF this] show ?case
    using a b by (simp add: Let_def)
qed

lemma total_distance_nonneg: "0 \<le> total_distance_of mps"
  unfolding total_distance_of_def by (rule fold_distance_nonneg) simp

lemma mouse_features_result:
  "0 \<le> avg_mouse_speed (mouse_features w fv)
   \<and> (length (mouse_positions_of w) < 2 \<longrightarrow> avg_mouse_speed (mouse_features w fv) = 0)
   \<and> inter_key_interval (mouse_features w fv) = inter_key_interval fv
   \<and> avg_typing_speed (mouse_features w fv) = avg_typing_speed fv
   \<and> avg_idle_duration (mouse_features w fv) = avg_idle_duration fv
   \<and> focus_loss_count (mouse_features w fv) = focus_loss_count fv
   \<and> window_start (mouse_features w fv) = window_start fv
   \<and> window_end (mouse_features w fv) = window_end fv"
  using total_distance_nonneg [of "mouse_positions_of w"]
  by (simp add: mouse_features_def Let_def)

text \<open>What \<^verbatim>\<open>compute_features\<close> returns on a buffer in chronological order.\<close>

lemma compute_features_result:
  assumes "sorted (map timestamp (event_buffer s))"
  shows "\<exists>fv. fst (compute_features s t) = Inr fv
     \<and> 0 \<le> avg_typing_speed fv \<and> 0 \<le> inter_key_interval fv
     \<and> 0 \<le> focus_loss_count fv \<and> 0 \<le> avg_mouse_speed fv
     \<and> ((\<forall>ev \<in> set (event_buffer (snd (compute_features s t))). idle_nonneg ev)
          \<longrightarrow> 0 \<le> avg_idle_duration fv)
     \<and> (length (press_timestamps_of (event_buffer (snd (compute_features s t)))) < 2
          \<longrightarrow> avg_typing_speed fv = 0 \<and> inter_key_interval fv = 0)
     \<and> (length (mouse_positions_of (event_buffer (snd (compute_features s t)))) < 2
          \<longrightarrow> avg_mouse_speed fv = 0)
     \<and> (idle_durations_of (event_buffer (snd (compute_features s t))) = []
          \<longrightarrow> avg_idle_duration fv = 0)
     \<and> focus_loss_count fv
          = int (length (filter is_focus_lost (event_buffer (snd (compute_features s t)))))
     \<and> window_start fv = reference_time s t - window_duration s
     \<and> window_end fv = reference_time s t"
proof -
  let ?ct = "reference_time s t"
  let ?s' = "prune_buffer s ?ct"
  let ?w = "event_buffer ?s'"
  let ?fv0 = "FeatureVector_default
                \<lparr>window_start := ?ct - window_duration s, window_end := ?ct\<rparr>"
  have sw: "sorted (map timestamp ?w)"
    using assms by (simp add: prune_buffer_def Let_def sorted_popleft_while)
  have z: "avg_typing_speed ?fv0 = 0"
    by (simp add: FeatureVector_default_def)
  from keystroke_features_result [OF sw z, of ?ct] obtain fv1 where
    k: "keystroke_features ?w ?ct ?fv0 = Inr fv1"
    and k1: "0 \<le> inter_key_interval fv1" "0 \<le> avg_typing_speed fv1"
    "length (press_timestamps_of ?w) < 2
       \<longrightarrow> inter_key_interval fv1 = 0 \<and> avg_typing_speed fv1 = 0"
    "window_start fv1 = window_start ?fv0" "window_end fv1 = window_end ?fv0"
    by blast
  from idle_features_result [of ?w fv1] obtain fv2 where
    i: "idle_features ?w fv1 = Inr fv2"
    and i1: "(\<forall>ev \<in> set ?w. idle_nonneg ev) \<longrightarrow> 0 \<le> avg_idle_duration fv2"
    "idle_durations_of ?w = [] \<longrightarrow> avg_idle_duration fv2 = 0"
    "inter_key_interval fv2 = inter_key_interval fv1"
    "avg_typing_speed fv2 = avg_typing_speed fv1"
    "window_start fv2 = window_start fv1" "window_end fv2 = window_end fv1"
    by blast
  let ?fv3 = "focus_features ?w fv2"
  have f: "focus_loss_count ?fv3 = int (length (filter is_focus_lost ?w))"
    "inter_key_interval ?fv3 = inter_key_interval fv2"
    "avg_typing_speed ?fv3 = avg_typing_speed fv2"
    "avg_idle_duration ?fv3 = avg_idle_duration fv2"
    "window_start ?fv3 = window_start fv2" "window_end ?fv3 = window_end fv2"
    by (simp_all add: focus_features_count) (simp_all add: focus_features_def)
  let ?fv = "mouse_features ?w ?fv3"
  have r: "compute_features s t = (Inr ?fv, ?s')"
    by (simp add: compute_features_def Let_def k i)
  from mouse_features_result [of ?w ?fv3] k1 i1 f
  have "0 \<le> avg_typing_speed ?fv \<and> 0 \<le> inter_key_interval ?fv
     \<and> 0 \<le> focus_loss_count ?fv \<and> 0 \<le> avg_mouse_speed ?fv
     \<and> ((\<forall>ev \<in> set ?w. idle_nonneg ev) \<longrightarrow> 0 \<le> avg_idle_duration ?fv)
     \<and> (length (press_timestamps_of ?w) < 2
          \<longrightarrow> avg_typing_speed ?fv = 0 \<and> inter_key_interval ?fv = 0)
     \<and> (length (mouse_positions_of ?w) < 2 \<longrightarrow> avg_mouse_speed ?fv = 0)
     \<and> (idle_durations_of ?w = [] \<longrightarrow> avg_idle_duration ?fv = 0)
     \<and> focus_loss_count ?fv = int (length (filter is_focus_lost ?w))
     \<and> window_start ?fv = ?ct - window_duration s
     \<and> window_end ?fv = ?ct"
    by simp
  then show ?thesis
    unfolding r fst_conv snd_conv by blast
qed

subsection \<open>The vector as a function of the retained events\<close>

lemma set_popleft_while: "set (popleft_while cutoff buf) \<subseteq> set buf"
  by (induction buf) auto

lemma compute_features_buffer:
  "event_buffer (snd (compute_features (session wd ops) t)) = retained (session wd ops) t"
proof -
  have "(\<lambda>e. \<not> timestamp e < reference_time (session wd ops) t - wd)
      = (\<lambda>e. reference_time (session wd ops) t - wd \<le> timestamp e)"
    by (simp add: not_less)
  then show ?thesis
    using session_invariant [of wd ops]
    by (simp add: compute_features_state prune_buffer_def Let_def popleft_while_filter
        retained_def)
qed

lemma intervals_telescope:
  assumes "pts \<noteq> []"
  shows "sum_list (map (\<lambda>i. pts ! (i + 1) - pts ! i) [0 ..< length pts - 1])
           = last pts - hd (pts :: real list)"
proof -
  have "sum_list (map (\<lambda>i. pts ! (i + 1) - pts ! i) [0 ..< length pts - 1])
      = (\<Sum>i < length pts - 1. pts ! Suc i - pts ! i)"
    by (simp add: interv_sum_list_conv_sum_set_nat atLeast0LessThan)
  also have "\<dots> = pts ! (length pts - 1) - pts ! 0"
    by (rule sum_lessThan_telescope)
  finally show ?thesis
    using assms by (simp add: last_conv_nth hd_conv_nth)
qed

lemma keystroke_features_value:
  assumes "avg_typing_speed fv = 0"
  shows "\<exists>fv1. keystroke_features w ct fv = Inr fv1
     \<and> inter_key_interval fv1 =
         (if 2 \<le> length (press_timestamps_of w)
          then (last (press_timestamps_of w) - hd (press_timestamps_of w))
                 / real (length (press_timestamps_of w) - 1)
          else 0)
     \<and> avg_typing_speed fv1 =
         (if 2 \<le> length (press_timestamps_of w) \<and> 0 < ct - window_start fv
          then real (length (press_timestamps_of w)) / (ct - window_start fv) * 60
          else 0)
     \<and> window_start fv1 = window_start fv \<and> window_end fv1 = window_end fv"
proof (cases "2 \<le> length (press_timestamps_of w)")
  case True
  let ?pts = "press_timestamps_of w"
  let ?ivs = "map (\<lambda>i. ?pts ! (i + 1) - ?pts ! i) [0 ..< length ?pts - 1]"
  from True have ne: "?pts \<noteq> []"
    by auto
  from True have len: "real (length ?ivs) \<noteq> 0" and len': "length ?ivs = length ?pts - 1"
    by simp_all
  have div: "py_div (sum_list ?ivs) (real (length ?ivs))
      = Inr ((last ?pts - hd ?pts) / real (length ?pts - 1))"
    using len unfolding len' intervals_telescope [OF ne] by (simp add: py_div_def)
  show ?thesis
    using True assms
    unfolding keystroke_features_def Let_def div
    by (auto simp del: length_map length_upt)
next
  case False
  then show ?thesis
    by (simp add: keystroke_features_def Let_def)
qed

lemma idle_features_value:
  "\<exists>fv2. idle_features w fv = Inr fv2
     \<and> avg_idle_duration fv2 =
         (if idle_durations_of w = [] then 0
          else sum_list (idle_durations_of w) / real (length (idle_durations_of w)))
     \<and> inter_key_interval fv2 = inter_key_interval fv
     \<and> avg_typing_speed fv2 = avg_typing_speed fv
     \<and> window_start fv2 = window_start fv \<and> window_end fv2 = window_end fv"
  by (simp add: idle_features_def py_div_def Let_def)

lemma mouse_features_value:
  "avg_mouse_speed (mouse_features w fv) =
     (if 2 \<le> length (mouse_positions_of w)
         \<and> 0 < fst (last (mouse_positions_of w)) - fst (hd (mouse_positions_of w))
      then total_distance_of (mouse_positions_of w)
             / (fst (last (mouse_positions_of w)) - fst (hd (mouse_positions_of w)))
      else 0)"
  by (simp add: mouse_features_def Let_def)

lemma compute_features_value:
  "fst (compute_features s t) =
     Inr \<lparr>avg_typing_speed =
            (if 2 \<le> length (press_timestamps_of (event_buffer (snd (compute_features s t))))
                \<and> 0 < window_duration s
             then real (length (press_timestamps_of (event_buffer (snd (compute_features s t)))))
                    / window_duration s * 60
             else 0),
          avg_idle_duration =
            (if idle_durations_of (event_buffer (snd (compute_features s t))) = [] then 0
             else sum_list (idle_durations_of (event_buffer (snd (compute_features s t))))
                    / real (length (idle_durations_of
                                      (event_buffer (snd (compute_features s t)))))),
          focus_loss_count =
            int (length (filter is_focus_lost (event_buffer (snd (compute_features s t))))),
          avg_mouse_speed =
            (if 2 \<le> length (mouse_positions_of (event_buffer (snd (compute_features s t))))
                \<and> 0 < fst (last (mouse_positions_of
                                   (event_buffer (snd (compute_features s t)))))
                      - fst (hd (mouse_positions_of
                                   (event_buffer (snd (compute_features s t)))))
             then total_distance_of
                    (mouse_positions_of (event_buffer (snd (compute_features s t))))
                  / (fst (last (mouse_positions_of
                                  (event_buffer (snd (compute_features s t)))))
                     - fst (hd (mouse_positions_of
                                  (event_buffer (snd (compute_features s t))))))
             else 0),
          inter_key_interval =
            (if 2 \<le> length (press_timestamps_of (event_buffer (snd (compute_features s t))))
             then (last (press_timestamps_of (event_buffer (snd (compute_features s t))))
                   - hd (press_timestamps_of (event_buffer (snd (compute_features s t)))))
                  / real (length (press_timestamps_of
                                    (event_buffer (snd (compute_features s t)))) - 1)
             else 0),
          window_start = reference_time s t - window_duration s,
          window_end = reference_time s t\<rparr>"
proof -
  let ?ct = "reference_time s t"
  let ?s' = "prune_buffer s ?ct"
  let ?w = "event_buffer ?s'"
  let ?start = "FeatureVector_default
                \<lparr>window_start := ?ct - window_duration s, window_end := ?ct\<rparr>"
  have z: "avg_typing_speed ?start = 0"
    by (simp add: FeatureVector_default_def)
  from keystroke_features_value [OF z, of ?w ?ct] obtain fv1 where
    k: "keystroke_features ?w ?ct ?start = Inr fv1"
    and k1: "inter_key_interval fv1 =
         (if 2 \<le> length (press_timestamps_of ?w)
          then (last (press_timestamps_of ?w) - hd (press_timestamps_of ?w))
                 / real (length (press_timestamps_of ?w) - 1)
          else 0)"
    "avg_typing_speed fv1 =
         (if 2 \<le> length (press_timestamps_of ?w) \<and> 0 < ?ct - window_start ?start
          then real (length (press_timestamps_of ?w)) / (?ct - window_start ?start) * 60
          else 0)"
    "window_start fv1 = window_start ?start" "window_end fv1 = window_end ?start"
    by blast
  from idle_features_value [of ?w fv1] obtain fv2 where
    i: "idle_features ?w fv1 = Inr fv2"
    and i1: "avg_idle_duration fv2 =
         (if idle_durations_of ?w = [] then 0
          else sum_list (idle_durations_of ?w) / real (length (idle_durations_of ?w)))"
    "inter_key_interval fv2 = inter_key_interval fv1"
    "avg_typing_speed fv2 = avg_typing_speed fv1"
    "window_start fv2 = window_start fv1" "window_end fv2 = window_end fv1"
    by blast
  let ?fv3 = "focus_features ?w fv2"
  have f: "focus_loss_count ?fv3 = int (length (filter is_focus_lost ?w))"
    "inter_key_interval ?fv3 = inter_key_interval fv2"
    "avg_typing_speed ?fv3 = avg_typing_speed fv2"
    "avg_idle_duration ?fv3 = avg_idle_duration fv2"
    "window_start ?fv3 = window_start fv2" "window_end ?fv3 = window_end fv2"
    by (simp_all add: focus_features_count) (simp_all add: focus_features_def)
  let ?fv = "mouse_features ?w ?fv3"
  have r: "compute_features s t = (Inr ?fv, ?s')"
    by (simp add: compute_features_def Let_def k i)
  have w0: "window_start ?start = ?ct - window_duration s" "window_end ?start = ?ct"
    by simp_all
  have fields: "avg_typing_speed ?fv =
         (if 2 \<le> length (press_timestamps_of ?w) \<and> 0 < window_duration s
          then real (length (press_timestamps_of ?w)) / window_duration s * 60 else 0)"
    "avg_idle_duration ?fv =
         (if idle_durations_of ?w = [] then 0
          else sum_list (idle_durations_of ?w) / real (length (idle_durations_of ?w)))"
    "focus_loss_count ?fv = int (length (filter is_focus_lost ?w))"
    "inter_key_interval ?fv =
         (if 2 \<le> length (press_timestamps_of ?w)
          then (last (press_timestamps_of ?w) - hd (press_timestamps_of ?w))
                 / real (length (press_timestamps_of ?w) - 1)
          else 0)"
    "window_start ?fv = ?ct - window_duration s" "window_end ?fv = ?ct"
    using mouse_features_result [of ?w ?fv3] k1 i1 f w0 by simp_all
  show ?thesis
    unfolding r fst_conv snd_conv
    using fields mouse_features_value [of ?w ?fv3]
    by (cases ?fv) simp
qed

lemma sqrt_25: "sqrt 25 = 5"
  using real_sqrt_abs2 [of 5] by simp

text \<open>
  C6, as the code has it. On every buffer that a session can build, in whatever order
  the events arrived, and for every reference time, \<^verbatim>\<open>compute_features\<close> returns a
  vector: no division fails. The samples that count are those of the retained events,
  the buffered events not older than the cutoff, with no bound at the reference time.
  Typing speed, inter-key interval, focus-loss count and mouse speed are never negative;
  the idle duration is not negative when no retained idle event has a negative
  duration. Typing speed and inter-key interval are 0 with fewer than two retained key
  presses, mouse speed is 0 with fewer than two retained mouse moves, the idle duration
  is 0 with no retained idle event and the focus-loss count is 0 with no retained focus
  loss.
\<close>

theorem compute_features_fields_in_range:
  "\<exists>fv. fst (compute_features (session wd ops) t) = Inr fv
     \<and> event_buffer (snd (compute_features (session wd ops) t)) = retained (session wd ops) t
     \<and> 0 \<le> avg_typing_speed fv \<and> 0 \<le> inter_key_interval fv
     \<and> 0 \<le> focus_loss_count fv \<and> 0 \<le> avg_mouse_speed fv
     \<and> ((\<forall>ev \<in> set (retained (session wd ops) t). idle_nonneg ev)
          \<longrightarrow> 0 \<le> avg_idle_duration fv)
     \<and> (length (press_timestamps_of (retained (session wd ops) t)) < 2
          \<longrightarrow> avg_typing_speed fv = 0 \<and> inter_key_interval fv = 0)
     \<and> (length (mouse_positions_of (retained (session wd ops) t)) < 2
          \<longrightarrow> avg_mouse_speed fv = 0)
     \<and> (idle_durations_of (retained (session wd ops) t) = []
          \<longrightarrow> avg_idle_duration fv = 0)
     \<and> (filter is_focus_lost (retained (session wd ops) t) = []
          \<longrightarrow> focus_loss_count fv = 0)"
proof -
  let ?s = "session wd ops"
  have sorted: "sorted (map timestamp (event_buffer ?s))"
    using session_invariant [of wd ops] by simp
  have buf: "event_buffer (snd (compute_features ?s t)) = retained ?s t"
    by (rule compute_features_buffer)
  from compute_features_result [OF sorted, of t] obtain fv where
    fv: "fst (compute_features ?s t) = Inr fv"
    "0 \<le> avg_typing_speed fv" "0 \<le> inter_key_interval fv"
    "0 \<le> focus_loss_count fv" "0 \<le> avg_mouse_speed fv"
    "(\<forall>ev \<in> set (retained ?s t). idle_nonneg ev) \<longrightarrow> 0 \<le> avg_idle_duration fv"
    "length (press_timestamps_of (retained ?s t)) < 2
       \<longrightarrow> avg_typing_speed fv = 0 \<and> inter_key_interval fv = 0"
    "length (mouse_positions_of (retained ?s t)) < 2 \<longrightarrow> avg_mouse_speed fv = 0"
    "idle_durations_of (retained ?s t) = [] \<longrightarrow> avg_idle_duration fv = 0"
    "focus_loss_count fv = int (length (filter is_focus_lost (retained ?s t)))"
    unfolding buf by blast
  from fv(10) have "filter is_focus_lost (retained ?s t) = [] \<longrightarrow> focus_loss_count fv = 0"
    by simp
  with fv buf show ?thesis
    by blast
qed

theorem compute_features_fields_in_range_witness:
  "retained (session 30 [Add (KeystrokeEvent 5 KEY_PRESS), Add (KeystrokeEvent 3 KEY_PRESS),
                         Add (IdleEvent 4 IDLE_PERIOD 2)]) (Some 10)
     = [KeystrokeEvent 3 KEY_PRESS, IdleEvent 4 IDLE_PERIOD 2, KeystrokeEvent 5 KEY_PRESS]
   \<and> (\<exists>fv. fst (compute_features
                (session 30 [Add (KeystrokeEvent 5 KEY_PRESS), Add (KeystrokeEvent 3 KEY_PRESS),
                             Add (IdleEvent 4 IDLE_PERIOD 2)]) (Some 10)) = Inr fv
          \<and> 0 \<le> avg_typing_speed fv \<and> 0 \<le> inter_key_interval fv
          \<and> 0 \<le> avg_idle_duration fv \<and> 0 \<le> focus_loss_count fv
          \<and> 0 \<le> avg_mouse_speed fv)
   \<and> retained (session 30 [Add (KeystrokeEvent 7 KEY_PRESS)]) None
     = [KeystrokeEvent 7 KEY_PRESS]
   \<and> (\<exists>fv. fst (compute_features (session 30 [Add (KeystrokeEvent 7 KEY_PRESS)]) None) = Inr fv
          \<and> avg_typing_speed fv = 0 \<and> inter_key_interval fv = 0
          \<and> avg_idle_duration fv = 0 \<and> focus_loss_count fv = 0
          \<and> avg_mouse_speed fv = 0)"
proof -
  have r1: "retained (session 30 [Add (KeystrokeEvent 5 KEY_PRESS),
        Add (KeystrokeEvent 3 KEY_PRESS), Add (IdleEvent 4 IDLE_PERIOD 2)]) (Some 10)
     = [KeystrokeEvent 3 KEY_PRESS, IdleEvent 4 IDLE_PERIOD 2, KeystrokeEvent 5 KEY_PRESS]"
    by (simp add: retained_def reference_time_def session_def FeatureExtractor_init_def
        add_event_def)
  have r2: "retained (session 30 [Add (KeystrokeEvent 7 KEY_PRESS)]) None
     = [KeystrokeEvent 7 KEY_PRESS]"
    by (simp add: retained_def reference_time_def session_def FeatureExtractor_init_def
        add_event_def)
  have h1: "\<forall>ev \<in> set (retained (session 30 [Add (KeystrokeEvent 5 KEY_PRESS),
        Add (KeystrokeEvent 3 KEY_PRESS), Add (IdleEvent 4 IDLE_PERIOD 2)]) (Some 10)).
      idle_nonneg ev"
    unfolding r1 by simp
  have h2: "\<forall>ev \<in> set (retained (session 30 [Add (KeystrokeEvent 7 KEY_PRESS)]) None).
      idle_nonneg ev"
    "length (press_timestamps_of
        (retained (session 30 [Add (KeystrokeEvent 7 KEY_PRESS)]) None)) < 2"
    "length (mouse_positions_of
        (retained (session 30 [Add (KeystrokeEvent 7 KEY_PRESS)]) None)) < 2"
    "idle_durations_of (retained (session 30 [Add (KeystrokeEvent 7 KEY_PRESS)]) None) = []"
    "filter is_focus_lost (retained (session 30 [Add (KeystrokeEvent 7 KEY_PRESS)]) None) = []"
    unfolding r2 by simp_all
  from compute_features_fields_in_range
    [of 30 "[Add (KeystrokeEvent 5 KEY_PRESS), Add (KeystrokeEvent 3 KEY_PRESS),
             Add (IdleEvent 4 IDLE_PERIOD 2)]" "Some 10"] h1
  have a: "\<exists>fv. fst (compute_features
                (session 30 [Add (KeystrokeEvent 5 KEY_PRESS), Add (KeystrokeEvent 3 KEY_PRESS),
                             Add (IdleEvent 4 IDLE_PERIOD 2)]) (Some 10)) = Inr fv
          \<and> 0 \<le> avg_typing_speed fv \<and> 0 \<le> inter_key_interval fv
          \<and> 0 \<le> avg_idle_duration fv \<and> 0 \<le> focus_loss_count fv
          \<and> 0 \<le> avg_mouse_speed fv"
    by blast
  from compute_features_fields_in_range [of 30 "[Add (KeystrokeEvent 7 KEY_PRESS)]" None] h2
  have b: "\<exists>fv. fst (compute_features (session 30 [Add (KeystrokeEvent 7 KEY_PRESS)]) None)
            = Inr fv
          \<and> avg_typing_speed fv = 0 \<and> inter_key_interval fv = 0
          \<and> avg_idle_duration fv = 0 \<and> focus_loss_count fv = 0
          \<and> avg_mouse_speed fv = 0"
    by blast
  from r1 a r2 b show ?thesis
    by blast
qed

text \<open>
  C6 as stated fails for two fields: one idle event and one focus loss, fewer than two
  samples of each kind, give an idle duration of 5 and a focus-loss count of 1.
\<close>

theorem compute_features_single_sample_counterexample:
  "fst (compute_features
          (session 30 [Add (IdleEvent 1 IDLE_PERIOD 5), Add (FocusEvent 2 FOCUS_LOST True)])
          (Some 2))
     = Inr \<lparr>avg_typing_speed = 0, avg_idle_duration = 5, focus_loss_count = 1,
            avg_mouse_speed = 0, inter_key_interval = 0, window_start = - 28,
            window_end = 2\<rparr>
   \<and> length (idle_durations_of (event_buffer (snd (compute_features
          (session 30 [Add (IdleEvent 1 IDLE_PERIOD 5), Add (FocusEvent 2 FOCUS_LOST True)])
          (Some 2))))) = 1
   \<and> length (filter is_focus_lost (event_buffer (snd (compute_features
          (session 30 [Add (IdleEvent 1 IDLE_PERIOD 5), Add (FocusEvent 2 FOCUS_LOST True)])
          (Some 2))))) = 1"
  by (simp add: session_def FeatureExtractor_init_def add_event_def compute_features_def
      reference_time_def prune_buffer_def keystroke_features_def idle_features_def
      focus_features_def mouse_features_def py_div_def FeatureVector_default_def Let_def)

text \<open>
  C10, as the code has it. \<^verbatim>\<open>compute_features\<close> removes exactly the events older
  than the cutoff, the reference time less the window duration. When the window duration
  is not negative, every buffered event at or after the reference time is therefore
  kept, and the kept events, with no upper bound on their timestamps, are what every
  feature is computed from: typing speed and inter-key interval from their key presses,
  idle duration from their idle events, the focus-loss count from their focus losses
  and mouse speed from their mouse moves, while the vector reports the window from the
  cutoff to the reference time.
\<close>

theorem compute_features_lower_bound_only:
  assumes "0 \<le> wd"
  shows "let S = session wd ops;
             ct = reference_time S t;
             W = filter (\<lambda>e. \<not> timestamp e < ct - wd) (event_buffer S);
             P = map timestamp (filter is_key_press W);
             D = idle_durations_of W;
             M = mouse_positions_of W
         in event_buffer (snd (compute_features S t)) = W
          \<and> (\<forall>e \<in> set (event_buffer S). ct \<le> timestamp e \<longrightarrow> e \<in> set W)
          \<and> fst (compute_features S t) =
              Inr \<lparr>avg_typing_speed =
                     (if 2 \<le> length P \<and> 0 < wd then real (length P) / wd * 60 else 0),
                   avg_idle_duration =
                     (if D = [] then 0 else sum_list D / real (length D)),
                   focus_loss_count = int (length (filter is_focus_lost W)),
                   avg_mouse_speed =
                     (if 2 \<le> length M \<and> 0 < fst (last M) - fst (hd M)
                      then total_distance_of M / (fst (last M) - fst (hd M)) else 0),
                   inter_key_interval =
                     (if 2 \<le> length P then (last P - hd P) / real (length P - 1) else 0),
                   window_start = ct - wd,
                   window_end = ct\<rparr>"
proof -
  let ?S = "session wd ops"
  let ?ct = "reference_time ?S t"
  let ?W = "filter (\<lambda>e. \<not> timestamp e < ?ct - wd) (event_buffer ?S)"
  have wd: "window_duration ?S = wd"
    using session_invariant [of wd ops] by simp
  have buf: "event_buffer (snd (compute_features ?S t)) = ?W"
    by (simp add: compute_features_buffer retained_def wd not_less)
  have kept: "\<forall>e \<in> set (event_buffer ?S). ?ct \<le> timestamp e \<longrightarrow> e \<in> set ?W"
    using assms by auto
  have val: "fst (compute_features ?S t) =
      Inr \<lparr>avg_typing_speed =
             (if 2 \<le> length (map timestamp (filter is_key_press ?W)) \<and> 0 < wd
              then real (length (map timestamp (filter is_key_press ?W))) / wd * 60 else 0),
           avg_idle_duration =
             (if idle_durations_of ?W = [] then 0
              else sum_list (idle_durations_of ?W) / real (length (idle_durations_of ?W))),
           focus_loss_count = int (length (filter is_focus_lost ?W)),
           avg_mouse_speed =
             (if 2 \<le> length (mouse_positions_of ?W)
                 \<and> 0 < fst (last (mouse_positions_of ?W)) - fst (hd (mouse_positions_of ?W))
              then total_distance_of (mouse_positions_of ?W)
                   / (fst (last (mouse_positions_of ?W)) - fst (hd (mouse_positions_of ?W)))
              else 0),
           inter_key_interval =
             (if 2 \<le> length (map timestamp (filter is_key_press ?W))
              then (last (map timestamp (filter is_key_press ?W))
                    - hd (map timestamp (filter is_key_press ?W)))
                   / real (length (map timestamp (filter is_key_press ?W)) - 1)
              else 0),
           window_start = ?ct - wd,
           window_end = ?ct\<rparr>"
    using compute_features_value [of ?S t]
    unfolding buf wd press_timestamps_of_filter .
  from buf kept val show ?thesis
    unfolding Let_def by blast
qed

theorem compute_features_lower_bound_only_witness:
  "(0::real) \<le> 30
   \<and> event_buffer (snd (compute_features
        (session 30 [Add (KeystrokeEvent 100 KEY_PRESS), Add (MouseEvent 100 MOUSE_MOVE 0 0),
                     Add (IdleEvent 101 IDLE_PERIOD 4), Add (KeystrokeEvent 102 KEY_PRESS),
                     Add (FocusEvent 103 FOCUS_LOST True),
                     Add (MouseEvent 104 MOUSE_MOVE 3 4)])
        (Some 50)))
       = [KeystrokeEvent 100 KEY_PRESS, MouseEvent 100 MOUSE_MOVE 0 0,
          IdleEvent 101 IDLE_PERIOD 4, KeystrokeEvent 102 KEY_PRESS,
          FocusEvent 103 FOCUS_LOST True, MouseEvent 104 MOUSE_MOVE 3 4]
   \<and> fst (compute_features
        (session 30 [Add (KeystrokeEvent 100 KEY_PRESS), Add (MouseEvent 100 MOUSE_MOVE 0 0),
                     Add (IdleEvent 101 IDLE_PERIOD 4), Add (KeystrokeEvent 102 KEY_PRESS),
                     Add (FocusEvent 103 FOCUS_LOST True),
                     Add (MouseEvent 104 MOUSE_MOVE 3 4)])
        (Some 50))
       = Inr \<lparr>avg_typing_speed = 4, avg_idle_duration = 4, focus_loss_count = 1,
              avg_mouse_speed = 5 / 4, inter_key_interval = 2, window_start = 20,
              window_end = 50\<rparr>"
proof -
  have h: "(0::real) \<le> 30"
    by simp
  have buf: "event_buffer
        (session 30 [Add (KeystrokeEvent 100 KEY_PRESS), Add (MouseEvent 100 MOUSE_MOVE 0 0),
                     Add (IdleEvent 101 IDLE_PERIOD 4), Add (KeystrokeEvent 102 KEY_PRESS),
                     Add (FocusEvent 103 FOCUS_LOST True),
                     Add (MouseEvent 104 MOUSE_MOVE 3 4)])
       = [KeystrokeEvent 100 KEY_PRESS, MouseEvent 100 MOUSE_MOVE 0 0,
          IdleEvent 101 IDLE_PERIOD 4, KeystrokeEvent 102 KEY_PRESS,
          FocusEvent 103 FOCUS_LOST True, MouseEvent 104 MOUSE_MOVE 3 4]"
    by (simp add: session_def FeatureExtractor_init_def add_event_def)
  have ref: "reference_time
        (session 30 [Add (KeystrokeEvent 100 KEY_PRESS), Add (MouseEvent 100 MOUSE_MOVE 0 0),
                     Add (IdleEvent 101 IDLE_PERIOD 4), Add (KeystrokeEvent 102 KEY_PRESS),
                     Add (FocusEvent 103 FOCUS_LOST True),
                     Add (MouseEvent 104 MOUSE_MOVE 3 4)])
        (Some 50) = 50"
    by (simp add: reference_time_def)
  have dist: "total_distance_of [(100, 0, 0), (104, 3, 4)] = 5"
    by (simp add: total_distance_of_def sqrt_25)
  from compute_features_lower_bound_only
    [OF h, of "[Add (KeystrokeEvent 100 KEY_PRESS), Add (MouseEvent 100 MOUSE_MOVE 0 0),
                Add (IdleEvent 101 IDLE_PERIOD 4), Add (KeystrokeEvent 102 KEY_PRESS),
                Add (FocusEvent 103 FOCUS_LOST True),
                Add (MouseEvent 104 MOUSE_MOVE 3 4)]" "Some 50"]
  show ?thesis
    unfolding Let_def ref buf by (simp add: dist)
qed

text \<open>
  C10 as stated fails for an extractor built with a negative window duration, which the
  constructor accepts: with a duration of -10 and the reference time 50 the cutoff is 60,
  and the buffered focus loss at 55, later than the reference time, is removed and not
  counted.
\<close>

theorem compute_features_negative_window_counterexample:
  "event_buffer (session (- 10) [Add (FocusEvent 55 FOCUS_LOST True)])
     = [FocusEvent 55 FOCUS_LOST True]
   \<and> compute_features (session (- 10) [Add (FocusEvent 55 FOCUS_LOST True)]) (Some 50)
     = (Inr \<lparr>avg_typing_speed = 0, avg_idle_duration = 0, focus_loss_count = 0,
             avg_mouse_speed = 0, inter_key_interval = 0, window_start = 60,
             window_end = 50\<rparr>,
        \<lparr>window_duration = - 10, event_buffer = []\<rparr>)"
  by (simp add: session_def FeatureExtractor_init_def add_event_def compute_features_def
      reference_time_def prune_buffer_def keystroke_features_def idle_features_def
      focus_features_def mouse_features_def py_div_def FeatureVector_default_def Let_def)


end
